theory Spec2Isabelle
  imports Main "HOL-Library.Multiset"
begin

section \<open>JavaScript values used by the task board\<close>

text \<open>
  The board is a TypeScript program, \<^verbatim>\<open>src/lib/db.ts\<close> under the handlers of
  \<^verbatim>\<open>src/app/api/tasks/route.ts\<close> (the version that imports \<^verbatim>\<open>dbStore\<close>), over the one
  table of \<^verbatim>\<open>src/database/schema.sql\<close>. The fields of a task and of a request body are
  modelled at their declared type, \<^verbatim>\<open>string\<close>: a field that may be missing is a
  \<open>string option\<close>, and \<open>None\<close> stands for both \<^verbatim>\<open>undefined\<close> and \<^verbatim>\<open>null\<close>,
  which every test of the source on such a field (\<^verbatim>\<open>!x\<close>, \<^verbatim>\<open>x || d\<close>, \<^verbatim>\<open>x ? a : b\<close>)
  treats alike. The one test that tells them apart, \<^verbatim>\<open>updates.f !== undefined\<close>, is
  read at the type \<^verbatim>\<open>Partial<Task>\<close>, where a field is a string or undefined. JSON
  values of other types are outside the model. A string is the list of its characters;
  \<open>CHR 0x00\<close> is the character U+0000. A time is an integer, the milliseconds since
  1970-01-01T00:00:00Z; \<^verbatim>\<open>NOW()\<close> of the database, as the \<^verbatim>\<open>TIMESTAMP\<close> it stores, is
  the argument \<open>now\<close> of the operations that read it.
\<close>

type_synonym timestamp = int

text \<open>Truthiness of a string or null/undefined: the empty string is falsy.\<close>

definition truthy :: "string option \<Rightarrow> bool" where
  "truthy v = (case v of None \<Rightarrow> False | Some s \<Rightarrow> s \<noteq> [])"

text \<open>\<^verbatim>\<open>a || b\<close> on two optional strings, \<^verbatim>\<open>a || 'literal'\<close> and \<^verbatim>\<open>a || null\<close>.\<close>

definition or_else :: "string option \<Rightarrow> string option \<Rightarrow> string option" where
  "or_else a b = (if truthy a then a else b)"

definition or_default :: "string option \<Rightarrow> string \<Rightarrow> string" where
  "or_default a d = (case a of None \<Rightarrow> d | Some s \<Rightarrow> if s = [] then d else s)"

definition or_null :: "string option \<Rightarrow> string option" where
  "or_null a = (if truthy a then a else None)"

text \<open>
  What the store uses of \<^verbatim>\<open>Date\<close> and of the driver are parameters of the model:
  \<open>new_Date s\<close> is \<^verbatim>\<open>new Date(s)\<close> (\<open>None\<close> for an Invalid Date) and \<open>toISOString\<close>
  renders an instant. A \<^verbatim>\<open>TIMESTAMP\<close> column has no time zone: the driver writes a
  \<^verbatim>\<open>Date\<close> as the wall-clock reading of the process's time zone (\<open>wall_clock\<close>; the
  server drops the offset that follows it) and builds the \<^verbatim>\<open>Date\<close> of a column value by
  reading it in that zone again (\<open>from_wall_clock\<close>). In a process whose zone is UTC
  both are the identity.
\<close>

record runtime =
  new_Date :: "string \<Rightarrow> timestamp option"
  toISOString :: "timestamp \<Rightarrow> string"
  wall_clock :: "timestamp \<Rightarrow> timestamp"
  from_wall_clock :: "timestamp \<Rightarrow> timestamp"

text \<open>Decimal rendering of a number, for the template \<^verbatim>\<open>`task_${Date.now()}`\<close>.\<close>

fun string_of_nat :: "nat \<Rightarrow> string" where
  "string_of_nat n =
     (if n < 10 then [''0123456789'' ! n]
      else string_of_nat (n div 10) @ [''0123456789'' ! (n mod 10)])"

declare string_of_nat.simps [simp del]

text \<open>\<^verbatim>\<open>process.env\<close>: the four variables the program reads.\<close>

record env =
  DATABASE_URL :: "string option"
  POSTGRES_URL :: "string option"
  API_SECRET_KEY :: "string option"
  NEXT_PUBLIC_TEAM_API_KEY :: "string option"

section \<open>The table \<open>team_tasks\<close>\<close>

text \<open>A row of \<^verbatim>\<open>team_tasks\<close>, column by column; a nullable column is an option.\<close>

record row =
  col_id :: string
  col_title :: string
  col_description :: "string option"
  col_priority :: string
  col_due_date :: "timestamp option"
  col_assigned_to :: "string option"
  col_status :: string
  col_created_at :: timestamp
  col_updated_at :: timestamp
  col_pushed_by :: string

text \<open>Why the server rejects a statement.\<close>

datatype pg_error =
    ConnectionFailure
  | CharacterNotInRepertoire
  | StringDataRightTruncation
  | InvalidDatetimeFormat
  | DatetimeFieldOverflow
  | CheckViolation
  | UniqueViolation

text \<open>
  The server takes no text value that holds the character U+0000, in whatever statement
  the value is a parameter.
\<close>

definition has_nul :: "string \<Rightarrow> bool" where
  "has_nul s = (CHR 0x00 \<in> set s)"

text \<open>
  A \<^verbatim>\<open>TIMESTAMP\<close> lies between 4714-11-24 BC and the end of the year 294276, counted
  here in milliseconds since 1970.
\<close>

definition timestamp_min :: timestamp where
  "timestamp_min = - 210866803200000"

definition timestamp_end :: timestamp where
  "timestamp_end = 9224318016000000"

definition in_range :: "timestamp \<Rightarrow> bool" where
  "in_range t = (timestamp_min \<le> t \<and> t < timestamp_end)"

text \<open>
  A \<^verbatim>\<open>Date\<close> bound to a \<^verbatim>\<open>TIMESTAMP\<close> parameter: null, a valid date, which arrives as
  its wall-clock reading, or an Invalid Date, whose text the server does not accept. A
  reading outside the range of the type is refused as well.
\<close>

datatype date_param = Null | Date timestamp | InvalidDate

definition date_param :: "runtime \<Rightarrow> string option \<Rightarrow> date_param" where
  "date_param rt d =
     (case d of
        None \<Rightarrow> Null
      | Some s \<Rightarrow>
          if s = [] then Null
          else (case new_Date rt s of
                  None \<Rightarrow> InvalidDate
                | Some t \<Rightarrow> Date (wall_clock rt t)))"

fun date_error :: "date_param \<Rightarrow> pg_error option" where
  "date_error Null = None"
| "date_error InvalidDate = Some InvalidDatetimeFormat"
| "date_error (Date t) = (if in_range t then None else Some DatetimeFieldOverflow)"

fun stored_date :: "date_param \<Rightarrow> timestamp option" where
  "stored_date (Date t) = Some t"
| "stored_date _ = None"

text \<open>
  \<^verbatim>\<open>VARCHAR(n)\<close>: a longer value is an error unless all the excess characters are
  spaces, and then the value is cut to \<open>n\<close> characters.
\<close>

definition fits :: "nat \<Rightarrow> string \<Rightarrow> bool" where
  "fits n s = (length s \<le> n \<or> list_all (\<lambda>c. c = CHR '' '') (drop n s))"

definition fits_opt :: "nat \<Rightarrow> string option \<Rightarrow> bool" where
  "fits_opt n v = (case v of None \<Rightarrow> True | Some s \<Rightarrow> fits n s)"

text \<open>The two \<^verbatim>\<open>CHECK\<close> constraints of the schema.\<close>

definition check_priority :: "string \<Rightarrow> bool" where
  "check_priority p = (p = ''low'' \<or> p = ''normal'' \<or> p = ''high'' \<or> p = ''urgent'')"

definition check_status :: "string \<Rightarrow> bool" where
  "check_status s = (s = ''todo'' \<or> s = ''in_progress'' \<or> s = ''completed'')"

subsection \<open>The five statements\<close>

text \<open>
  \<^verbatim>\<open>SELECT * FROM team_tasks [WHERE status = $1] ORDER BY created_at DESC\<close>; the
  argument is the array \<^verbatim>\<open>params\<close>, empty when the \<^verbatim>\<open>WHERE\<close> clause is not added.
  SQL leaves the order of rows with equal \<open>created_at\<close> open; the model keeps them in
  table order.
\<close>

definition select_tasks :: "string list \<Rightarrow> row list \<Rightarrow> pg_error + row list" where
  "select_tasks params tbl =
     Inr (sort_key (\<lambda>r. - col_created_at r)
       (case params of [] \<Rightarrow> tbl | s # _ \<Rightarrow> filter (\<lambda>r. col_status r = s) tbl))"

text \<open>The parameters \<^verbatim>\<open>$1 .. $8\<close> of the \<^verbatim>\<open>INSERT\<close>, in the order of \<^verbatim>\<open>values\<close>.\<close>

record insert_values =
  v_id :: string
  v_title :: string
  v_description :: "string option"
  v_priority :: string
  v_due_date :: date_param
  v_assigned_to :: "string option"
  v_status :: string
  v_pushed_by :: string

text \<open>
  \<^verbatim>\<open>INSERT INTO team_tasks (...) VALUES ($1, ..., $8) RETURNING *\<close>. The values are
  coerced to the column types, \<open>created_at\<close> and \<open>updated_at\<close> take their default
  \<open>NOW()\<close>, then the check constraints and the primary key are enforced. The result is
  the new table and the returned rows.
\<close>

definition insert_task :: "timestamp \<Rightarrow> insert_values \<Rightarrow> row list \<Rightarrow> pg_error + (row list \<times> row list)" where
  "insert_task now v tbl =
     (if \<not> (fits 255 (v_id v) \<and> fits 500 (v_title v) \<and> fits 20 (v_priority v)
             \<and> fits_opt 255 (v_assigned_to v) \<and> fits 50 (v_status v) \<and> fits 255 (v_pushed_by v))
      then Inl StringDataRightTruncation
      else
        (case date_error (v_due_date v) of
           Some c \<Rightarrow> Inl c
         | None \<Rightarrow>
             let r = \<lparr> col_id = take 255 (v_id v),
                       col_title = take 500 (v_title v),
                       col_description = v_description v,
                       col_priority = take 20 (v_priority v),
                       col_due_date = stored_date (v_due_date v),
                       col_assigned_to = map_option (take 255) (v_assigned_to v),
                       col_status = take 50 (v_status v),
                       col_created_at = now,
                       col_updated_at = now,
                       col_pushed_by = take 255 (v_pushed_by v) \<rparr>
             in if \<not> check_priority (col_priority r) \<or> \<not> check_status (col_status r)
                then Inl CheckViolation
                else if list_ex (\<lambda>x. col_id x = col_id r) tbl then Inl UniqueViolation
                else Inr (tbl @ [r], [r])))"

text \<open>The text values among the parameters of the \<^verbatim>\<open>INSERT\<close>.\<close>

definition insert_texts :: "insert_values \<Rightarrow> string list" where
  "insert_texts v =
     [v_id v, v_title v] @ (case v_description v of None \<Rightarrow> [] | Some s \<Rightarrow> [s])
     @ [v_priority v] @ (case v_assigned_to v of None \<Rightarrow> [] | Some s \<Rightarrow> [s])
     @ [v_status v, v_pushed_by v]"

text \<open>
  One entry of the \<^verbatim>\<open>SET\<close> list that \<^verbatim>\<open>updateTask\<close> assembles, with the value
  pushed for it.
\<close>

datatype assignment =
    SetTitle string
  | SetDescription "string option"
  | SetPriority string
  | SetDueDate date_param
  | SetAssignedTo "string option"
  | SetStatus string
  | SetPushedBy string

fun coercion_error :: "assignment \<Rightarrow> pg_error option" where
  "coercion_error (SetTitle s) = (if fits 500 s then None else Some StringDataRightTruncation)"
| "coercion_error (SetDescription d) = None"
| "coercion_error (SetPriority s) = (if fits 20 s then None else Some StringDataRightTruncation)"
| "coercion_error (SetDueDate d) = date_error d"
| "coercion_error (SetAssignedTo a) = (if fits_opt 255 a then None else Some StringDataRightTruncation)"
| "coercion_error (SetStatus s) = (if fits 50 s then None else Some StringDataRightTruncation)"
| "coercion_error (SetPushedBy s) = (if fits 255 s then None else Some StringDataRightTruncation)"

fun assign :: "assignment \<Rightarrow> row \<Rightarrow> row" where
  "assign (SetTitle s) r = r\<lparr>col_title := take 500 s\<rparr>"
| "assign (SetDescription d) r = r\<lparr>col_description := d\<rparr>"
| "assign (SetPriority s) r = r\<lparr>col_priority := take 20 s\<rparr>"
| "assign (SetDueDate d) r = r\<lparr>col_due_date := stored_date d\<rparr>"
| "assign (SetAssignedTo a) r = r\<lparr>col_assigned_to := map_option (take 255) a\<rparr>"
| "assign (SetStatus s) r = r\<lparr>col_status := take 50 s\<rparr>"
| "assign (SetPushedBy s) r = r\<lparr>col_pushed_by := take 255 s\<rparr>"

text \<open>The text value pushed for an entry, if it is one.\<close>

fun assignment_texts :: "assignment \<Rightarrow> string list" where
  "assignment_texts (SetTitle s) = [s]"
| "assignment_texts (SetDescription d) = (case d of None \<Rightarrow> [] | Some s \<Rightarrow> [s])"
| "assignment_texts (SetPriority s) = [s]"
| "assignment_texts (SetDueDate d) = []"
| "assignment_texts (SetAssignedTo a) = (case a of None \<Rightarrow> [] | Some s \<Rightarrow> [s])"
| "assignment_texts (SetStatus s) = [s]"
| "assignment_texts (SetPushedBy s) = [s]"

text \<open>
  The new version of a row under \<^verbatim>\<open>UPDATE ... SET fields\<close>: the assignments, then the
  trigger \<^verbatim>\<open>trigger_update_team_tasks_updated_at\<close>, which runs before every row update
  and sets \<^verbatim>\<open>NEW.updated_at = NOW()\<close>.
\<close>

definition new_row :: "timestamp \<Rightarrow> assignment list \<Rightarrow> row \<Rightarrow> row" where
  "new_row now flds r = (fold assign flds r)\<lparr>col_updated_at := now\<rparr>"

text \<open>
  \<^verbatim>\<open>UPDATE team_tasks SET fields WHERE id = $n RETURNING *\<close>. A value that cannot be
  coerced to its column fails the statement; a new row that breaks a check constraint
  fails it; a failed statement changes nothing. The result is the new table and the
  returned rows.
\<close>

definition update_task :: "timestamp \<Rightarrow> assignment list \<Rightarrow> string \<Rightarrow> row list \<Rightarrow> pg_error + (row list \<times> row list)" where
  "update_task now flds i tbl =
     (case List.map_filter coercion_error flds of
        e # _ \<Rightarrow> Inl e
      | [] \<Rightarrow>
          let hit = filter (\<lambda>r. col_id r = i) tbl in
          if list_ex (\<lambda>r. \<not> check_priority (col_priority (new_row now flds r))
                         \<or> \<not> check_status (col_status (new_row now flds r))) hit
          then Inl CheckViolation
          else Inr (map (\<lambda>r. if col_id r = i then new_row now flds r else r) tbl,
                    map (new_row now flds) hit))"

text \<open>\<^verbatim>\<open>SELECT * FROM team_tasks WHERE id = $1\<close>.\<close>

definition select_by_id :: "string \<Rightarrow> row list \<Rightarrow> pg_error + row list" where
  "select_by_id i tbl = Inr (filter (\<lambda>r. col_id r = i) tbl)"

text \<open>\<^verbatim>\<open>DELETE FROM team_tasks WHERE id = $1\<close>: the new table and \<^verbatim>\<open>rowCount\<close>.\<close>

definition delete_task :: "string \<Rightarrow> row list \<Rightarrow> pg_error + (row list \<times> nat)" where
  "delete_task i tbl =
     Inr (filter (\<lambda>r. col_id r \<noteq> i) tbl, length (filter (\<lambda>r. col_id r = i) tbl))"

text \<open>
  The one row of the statistics query. \<^verbatim>\<open>COUNT(*)\<close> is a number; a \<^verbatim>\<open>SUM\<close> over no
  rows is \<^verbatim>\<open>NULL\<close>. A comparison with a \<^verbatim>\<open>NULL\<close> due date is not true, so such a
  row adds 0 to \<open>overdue\<close>.
\<close>

record stats_row =
  sr_total :: nat
  sr_todo :: "nat option"
  sr_in_progress :: "nat option"
  sr_completed :: "nat option"
  sr_overdue :: "nat option"

definition sql_sum :: "(row \<Rightarrow> bool) \<Rightarrow> row list \<Rightarrow> nat option" where
  "sql_sum c tbl =
     (if tbl = [] then None else Some (sum_list (map (\<lambda>r. if c r then 1 else 0) tbl)))"

definition is_overdue :: "timestamp \<Rightarrow> row \<Rightarrow> bool" where
  "is_overdue now r =
     (case col_due_date r of None \<Rightarrow> False
      | Some d \<Rightarrow> d < now \<and> col_status r \<noteq> ''completed'')"

definition select_stats :: "timestamp \<Rightarrow> row list \<Rightarrow> pg_error + stats_row" where
  "select_stats now tbl =
     Inr \<lparr> sr_total = length tbl,
           sr_todo = sql_sum (\<lambda>r. col_status r = ''todo'') tbl,
           sr_in_progress = sql_sum (\<lambda>r. col_status r = ''in_progress'') tbl,
           sr_completed = sql_sum (\<lambda>r. col_status r = ''completed'') tbl,
           sr_overdue = sql_sum (is_overdue now) tbl \<rparr>"

section \<open>The store \<open>dbStore\<close>\<close>

text \<open>
  The state the store works on: the module variable \<^verbatim>\<open>pool\<close> (\<open>None\<close> is \<^verbatim>\<open>null\<close>,
  otherwise the connection string the pool was made with), whether the server answers
  queries, and the table. The handler \<^verbatim>\<open>pool.on('error', ...)\<close>, which resets the pool
  between calls, is not modelled.
\<close>

record world =
  pool :: "string option"
  reachable :: bool
  team_tasks :: "row list"

text \<open>
  What a store operation throws. \<open>NotConfigured\<close> is the error of \<^verbatim>\<open>getPool\<close>;
  \<open>FailedToFetchTasks c\<close> is \<^verbatim>\<open>Failed to fetch tasks from database: <message of c>\<close>; the
  others are the fixed messages \<^verbatim>\<open>Failed to add task to database\<close>,
  \<^verbatim>\<open>Failed to update task in database\<close>, \<^verbatim>\<open>Failed to fetch task from database\<close> and
  \<^verbatim>\<open>Failed to delete task from database\<close>.
\<close>

datatype cause = ConfigMissing | Pg pg_error

datatype error =
    NotConfigured
  | FailedToFetchTasks cause
  | FailedToAdd
  | FailedToUpdate
  | FailedToFetch
  | FailedToDelete

definition getPool :: "env \<Rightarrow> world \<Rightarrow> world \<times> (error + unit)" where
  "getPool e w =
     (if pool w = None
      then (let connectionString = or_else (DATABASE_URL e) (POSTGRES_URL e) in
            if \<not> truthy connectionString then (w, Inl NotConfigured)
            else (w\<lparr>pool := connectionString\<rparr>, Inr ()))
      else (w, Inr ()))"

text \<open>
  \<^verbatim>\<open>pool.query(query, values)\<close>, with the text values among \<^verbatim>\<open>values\<close>: when the
  server answers and takes every text value, the statement runs on the table.
\<close>

definition pool_query :: "world \<Rightarrow> string list \<Rightarrow> (row list \<Rightarrow> pg_error + 'a) \<Rightarrow> pg_error + 'a" where
  "pool_query w texts stmt =
     (if \<not> reachable w then Inl ConnectionFailure
      else if list_ex has_nul texts then Inl CharacterNotInRepertoire
      else stmt (team_tasks w))"

text \<open>The interface \<^verbatim>\<open>Task\<close> as the store returns it; \<open>id\<close> is the field \<open>task_id\<close>.\<close>

record Task =
  task_id :: string
  title :: string
  description :: "string option"
  priority :: string
  due_date :: "string option"
  assigned_to :: "string option"
  status :: string
  created_at :: string
  updated_at :: string
  pushed_by :: string

text \<open>
  \<^verbatim>\<open>{...row, due_date: row.due_date ? row.due_date.toISOString() : undefined,
  created_at: row.created_at.toISOString(), updated_at: row.updated_at.toISOString()}\<close>,
  where the three dates of \<^verbatim>\<open>row\<close> are the ones the driver built from the columns.
\<close>

definition row_date :: "runtime \<Rightarrow> timestamp \<Rightarrow> string" where
  "row_date rt c = toISOString rt (from_wall_clock rt c)"

definition to_task :: "runtime \<Rightarrow> row \<Rightarrow> Task" where
  "to_task rt r =
     \<lparr> task_id = col_id r,
       title = col_title r,
       description = col_description r,
       priority = col_priority r,
       due_date = map_option (row_date rt) (col_due_date r),
       assigned_to = col_assigned_to r,
       status = col_status r,
       created_at = row_date rt (col_created_at r),
       updated_at = row_date rt (col_updated_at r),
       pushed_by = col_pushed_by r \<rparr>"

text \<open>\<^verbatim>\<open>getTasks(status?)\<close>: \<^verbatim>\<open>getPool\<close> is called inside the \<^verbatim>\<open>try\<close>.\<close>

definition getTasks :: "env \<Rightarrow> runtime \<Rightarrow> world \<Rightarrow> string option \<Rightarrow> world \<times> (error + Task list)" where
  "getTasks e rt w st =
     (case getPool e w of
        (w', Inl _) \<Rightarrow> (w', Inl (FailedToFetchTasks ConfigMissing))
      | (w', Inr _) \<Rightarrow>
          (let params = (case or_null st of None \<Rightarrow> [] | Some s \<Rightarrow> [s]) in
           case pool_query w' params (select_tasks params) of
             Inl c \<Rightarrow> (w', Inl (FailedToFetchTasks (Pg c)))
           | Inr rows \<Rightarrow> (w', Inr (map (to_task rt) rows))))"

text \<open>The argument of \<^verbatim>\<open>addTask\<close>: \<^verbatim>\<open>Omit<Task, 'created_at' | 'updated_at'>\<close>.\<close>

record new_task =
  in_id :: string
  in_title :: string
  in_description :: "string option"
  in_priority :: string
  in_due_date :: "string option"
  in_assigned_to :: "string option"
  in_status :: string
  in_pushed_by :: string

definition insert_params :: "runtime \<Rightarrow> new_task \<Rightarrow> insert_values" where
  "insert_params rt t =
     \<lparr> v_id = in_id t,
       v_title = in_title t,
       v_description = or_null (in_description t),
       v_priority = in_priority t,
       v_due_date = date_param rt (in_due_date t),
       v_assigned_to = or_null (in_assigned_to t),
       v_status = in_status t,
       v_pushed_by = in_pushed_by t \<rparr>"

text \<open>
  \<^verbatim>\<open>addTask(task)\<close>: \<^verbatim>\<open>getPool\<close> is called before the \<^verbatim>\<open>try\<close>, so its error
  escapes as it is; every failure of the query becomes the one fixed error.
\<close>

definition addTask :: "env \<Rightarrow> runtime \<Rightarrow> timestamp \<Rightarrow> world \<Rightarrow> new_task \<Rightarrow> world \<times> (error + Task)" where
  "addTask e rt now w t =
     (case getPool e w of
        (w', Inl err) \<Rightarrow> (w', Inl err)
      | (w', Inr _) \<Rightarrow>
          (case pool_query w' (insert_texts (insert_params rt t))
                  (insert_task now (insert_params rt t)) of
             Inl _ \<Rightarrow> (w', Inl FailedToAdd)
           | Inr (tbl, rows) \<Rightarrow>
               (case rows of
                  [] \<Rightarrow> (w'\<lparr>team_tasks := tbl\<rparr>, Inl FailedToAdd)
                | r # _ \<Rightarrow> (w'\<lparr>team_tasks := tbl\<rparr>, Inr (to_task rt r)))))"

text \<open>\<^verbatim>\<open>getTaskById(id)\<close>: \<open>None\<close> is the result \<^verbatim>\<open>null\<close>.\<close>

definition getTaskById :: "env \<Rightarrow> runtime \<Rightarrow> world \<Rightarrow> string \<Rightarrow> world \<times> (error + Task option)" where
  "getTaskById e rt w i =
     (case getPool e w of
        (w', Inl err) \<Rightarrow> (w', Inl err)
      | (w', Inr _) \<Rightarrow>
          (case pool_query w' [i] (select_by_id i) of
             Inl _ \<Rightarrow> (w', Inl FailedToFetch)
           | Inr rows \<Rightarrow>
               (case rows of
                  [] \<Rightarrow> (w', Inr None)
                | r # _ \<Rightarrow> (w', Inr (Some (to_task rt r))))))"

text \<open>
  The argument \<^verbatim>\<open>updates: Partial<Task>\<close>, restricted to the seven fields that
  \<^verbatim>\<open>updateTask\<close> reads; \<open>None\<close> is \<^verbatim>\<open>undefined\<close>.
\<close>

record updates =
  upd_title :: "string option"
  upd_description :: "string option"
  upd_priority :: "string option"
  upd_due_date :: "string option"
  upd_assigned_to :: "string option"
  upd_status :: "string option"
  upd_pushed_by :: "string option"

text \<open>The arrays \<^verbatim>\<open>fields\<close> and \<^verbatim>\<open>values\<close>, built in the order of the source.\<close>

definition build_fields :: "runtime \<Rightarrow> updates \<Rightarrow> assignment list" where
  "build_fields rt u =
     (case upd_title u of None \<Rightarrow> [] | Some s \<Rightarrow> [SetTitle s])
     @ (case upd_description u of None \<Rightarrow> [] | Some s \<Rightarrow> [SetDescription (or_null (Some s))])
     @ (case upd_priority u of None \<Rightarrow> [] | Some s \<Rightarrow> [SetPriority s])
     @ (case upd_due_date u of None \<Rightarrow> [] | Some s \<Rightarrow> [SetDueDate (date_param rt (Some s))])
     @ (case upd_assigned_to u of None \<Rightarrow> [] | Some s \<Rightarrow> [SetAssignedTo (or_null (Some s))])
     @ (case upd_status u of None \<Rightarrow> [] | Some s \<Rightarrow> [SetStatus s])
     @ (case upd_pushed_by u of None \<Rightarrow> [] | Some s \<Rightarrow> [SetPushedBy s])"

text \<open>
  \<^verbatim>\<open>updateTask(id, updates)\<close>. With no field to set it hands over to
  \<^verbatim>\<open>getTaskById\<close>, whose promise it returns without awaiting it, so an error of that
  call is not rewritten by the \<^verbatim>\<open>catch\<close> here.
\<close>

definition updateTask :: "env \<Rightarrow> runtime \<Rightarrow> timestamp \<Rightarrow> world \<Rightarrow> string \<Rightarrow> updates \<Rightarrow> world \<times> (error + Task option)" where
  "updateTask e rt now w i u =
     (case getPool e w of
        (w', Inl err) \<Rightarrow> (w', Inl err)
      | (w', Inr _) \<Rightarrow>
          (let flds = build_fields rt u in
           if length flds = 0 then getTaskById e rt w' i
           else
             (case pool_query w' (concat (map assignment_texts flds) @ [i])
                     (update_task now flds i) of
                Inl _ \<Rightarrow> (w', Inl FailedToUpdate)
              | Inr (tbl, rows) \<Rightarrow>
                  (case rows of
                     [] \<Rightarrow> (w'\<lparr>team_tasks := tbl\<rparr>, Inr None)
                   | r # _ \<Rightarrow> (w'\<lparr>team_tasks := tbl\<rparr>, Inr (Some (to_task rt r)))))))"

text \<open>\<^verbatim>\<open>deleteTask(id)\<close>: \<^verbatim>\<open>(result.rowCount ?? 0) > 0\<close>.\<close>

definition deleteTask :: "env \<Rightarrow> world \<Rightarrow> string \<Rightarrow> world \<times> (error + bool)" where
  "deleteTask e w i =
     (case getPool e w of
        (w', Inl err) \<Rightarrow> (w', Inl err)
      | (w', Inr _) \<Rightarrow>
          (case pool_query w' [i] (delete_task i) of
             Inl _ \<Rightarrow> (w', Inl FailedToDelete)
           | Inr (tbl, rowCount) \<Rightarrow> (w'\<lparr>team_tasks := tbl\<rparr>, Inr (rowCount > 0))))"

text \<open>The result of \<^verbatim>\<open>getTaskStats\<close>.\<close>

record stats =
  total :: nat
  todo :: nat
  in_progress :: nat
  completed :: nat
  overdue :: nat

text \<open>\<^verbatim>\<open>parseInt(x) || 0\<close> on a count the driver returned, or on \<^verbatim>\<open>null\<close>.\<close>

definition parseInt_or_0 :: "nat option \<Rightarrow> nat" where
  "parseInt_or_0 x = (case x of None \<Rightarrow> 0 | Some n \<Rightarrow> if n = 0 then 0 else n)"

definition no_stats :: stats where
  "no_stats = \<lparr> total = 0, todo = 0, in_progress = 0, completed = 0, overdue = 0 \<rparr>"

definition getTaskStats :: "env \<Rightarrow> timestamp \<Rightarrow> world \<Rightarrow> world \<times> (error + stats)" where
  "getTaskStats e now w =
     (case getPool e w of
        (w', Inl err) \<Rightarrow> (w', Inl err)
      | (w', Inr _) \<Rightarrow>
          (case pool_query w' [] (select_stats now) of
             Inl _ \<Rightarrow> (w', Inr no_stats)
           | Inr r \<Rightarrow>
               (w', Inr \<lparr> total = parseInt_or_0 (Some (sr_total r)),
                          todo = parseInt_or_0 (sr_todo r),
                          in_progress = parseInt_or_0 (sr_in_progress r),
                          completed = parseInt_or_0 (sr_completed r),
                          overdue = parseInt_or_0 (sr_overdue r) \<rparr>)))"

section \<open>The HTTP handlers of \<open>/api/tasks\<close>\<close>

text \<open>
  What a handler reads of a request: the header \<^verbatim>\<open>x-api-key\<close>, the query parameters
  \<^verbatim>\<open>status\<close> and \<^verbatim>\<open>id\<close> (\<open>None\<close> when absent) and the JSON body (\<open>None\<close> when
  \<^verbatim>\<open>request.json()\<close> rejects). The CORS headers, the same on every response, are left
  out.
\<close>

record body =
  body_id :: "string option"
  body_title :: "string option"
  body_description :: "string option"
  body_priority :: "string option"
  body_due_date :: "string option"
  body_assigned_to :: "string option"
  body_status :: "string option"
  body_pushed_by :: "string option"

record request =
  x_api_key :: "string option"
  param_status :: "string option"
  param_id :: "string option"
  json :: "body option"

text \<open>A response: the HTTP status (200 when the handler gives none) and the JSON sent.\<close>

datatype payload =
    TaskList "Task list" nat
  | TaskSaved Task string
  | Message string
  | Failure string

record response =
  http_status :: nat
  sent :: payload

definition verifyApiKey :: "env \<Rightarrow> request \<Rightarrow> bool" where
  "verifyApiKey e req =
     (let apiKey = x_api_key req;
          managerKey = API_SECRET_KEY e;
          teamKey = or_default (NEXT_PUBLIC_TEAM_API_KEY e) ''team-member-access''
      in if \<not> truthy managerKey then False
         else apiKey = managerKey \<or> apiKey = Some teamKey)"

definition GET :: "env \<Rightarrow> runtime \<Rightarrow> world \<Rightarrow> request \<Rightarrow> world \<times> response" where
  "GET e rt w req =
     (case getTasks e rt w (or_null (param_status req)) of
        (w', Inl _) \<Rightarrow> (w', \<lparr>http_status = 500, sent = Failure ''Failed to fetch tasks''\<rparr>)
      | (w', Inr tasks) \<Rightarrow> (w', \<lparr>http_status = 200, sent = TaskList tasks (length tasks)\<rparr>))"

text \<open>
  The object \<^verbatim>\<open>task\<close> that \<^verbatim>\<open>POST\<close> builds once \<^verbatim>\<open>body.title\<close> is known to be
  truthy (\<open>ttl\<close>); \<open>date_now\<close> is \<^verbatim>\<open>Date.now()\<close>.
\<close>

definition task_of_body :: "nat \<Rightarrow> string \<Rightarrow> body \<Rightarrow> new_task" where
  "task_of_body date_now ttl b =
     \<lparr> in_id = or_default (body_id b) (''task_'' @ string_of_nat date_now),
       in_title = ttl,
       in_description = Some (or_default (body_description b) ''''),
       in_priority = or_default (body_priority b) ''normal'',
       in_due_date = body_due_date b,
       in_assigned_to = body_assigned_to b,
       in_status = or_default (body_status b) ''todo'',
       in_pushed_by = or_default (body_pushed_by b) ''ChiliHead System'' \<rparr>"

definition POST :: "env \<Rightarrow> runtime \<Rightarrow> nat \<Rightarrow> timestamp \<Rightarrow> world \<Rightarrow> request \<Rightarrow> world \<times> response" where
  "POST e rt date_now now w req =
     (if \<not> verifyApiKey e req
      then (w, \<lparr>http_status = 401, sent = Failure ''Unauthorized - Invalid API key''\<rparr>)
      else
        (case json req of
           None \<Rightarrow> (w, \<lparr>http_status = 500, sent = Failure ''Failed to create task''\<rparr>)
         | Some b \<Rightarrow>
             (case or_null (body_title b) of
                None \<Rightarrow> (w, \<lparr>http_status = 400, sent = Failure ''Title is required''\<rparr>)
              | Some ttl \<Rightarrow>
                  (case addTask e rt now w (task_of_body date_now ttl b) of
                     (w', Inl _) \<Rightarrow>
                       (w', \<lparr>http_status = 500, sent = Failure ''Failed to create task''\<rparr>)
                   | (w', Inr savedTask) \<Rightarrow>
                       (w', \<lparr>http_status = 200,
                             sent = TaskSaved savedTask ''Task pushed to team board''\<rparr>)))))"

definition DELETE :: "env \<Rightarrow> world \<Rightarrow> request \<Rightarrow> world \<times> response" where
  "DELETE e w req =
     (if \<not> verifyApiKey e req
      then (w, \<lparr>http_status = 401, sent = Failure ''Unauthorized - Invalid API key''\<rparr>)
      else
        (case or_null (param_id req) of
           None \<Rightarrow> (w, \<lparr>http_status = 400, sent = Failure ''Task ID required''\<rparr>)
         | Some taskId \<Rightarrow>
             (case deleteTask e w taskId of
                (w', Inl _) \<Rightarrow> (w', \<lparr>http_status = 500, sent = Failure ''Failed to delete task''\<rparr>)
              | (w', Inr deleted) \<Rightarrow>
                  if \<not> deleted
                  then (w', \<lparr>http_status = 404, sent = Failure ''Task not found''\<rparr>)
                  else (w', \<lparr>http_status = 200, sent = Message ''Task deleted''\<rparr>))))"

section \<open>Predicates of the statements below\<close>

text \<open>
  \<open>configured\<close>: \<^verbatim>\<open>getPool\<close> does not throw, because a pool exists or a connection
  string is set. \<open>available\<close>: moreover the server answers.
\<close>

definition configured :: "env \<Rightarrow> world \<Rightarrow> bool" where
  "configured e w = (pool w \<noteq> None \<or> truthy (or_else (DATABASE_URL e) (POSTGRES_URL e)))"

definition available :: "env \<Rightarrow> world \<Rightarrow> bool" where
  "available e w = (configured e w \<and> reachable w)"

text \<open>
  What holds of every table of the server: no text column holds U+0000, the
  \<^verbatim>\<open>VARCHAR\<close> columns that the store writes without a check of its own are within
  their lengths, the two check constraints hold, and the ids are distinct (the primary
  key).
\<close>

definition texts_ok :: "row \<Rightarrow> bool" where
  "texts_ok r =
     (\<not> has_nul (col_id r) \<and> \<not> has_nul (col_title r)
      \<and> (case col_description r of None \<Rightarrow> True | Some s \<Rightarrow> \<not> has_nul s)
      \<and> (case col_assigned_to r of None \<Rightarrow> True | Some s \<Rightarrow> \<not> has_nul s)
      \<and> \<not> has_nul (col_pushed_by r))"

definition lengths_ok :: "row \<Rightarrow> bool" where
  "lengths_ok r =
     (length (col_id r) \<le> 255 \<and> length (col_title r) \<le> 500
      \<and> (case col_assigned_to r of None \<Rightarrow> True | Some a \<Rightarrow> length a \<le> 255)
      \<and> length (col_pushed_by r) \<le> 255)"

definition row_ok :: "row \<Rightarrow> bool" where
  "row_ok r =
     (check_priority (col_priority r) \<and> check_status (col_status r) \<and> lengths_ok r
      \<and> texts_ok r)"

definition constraints_hold :: "row list \<Rightarrow> bool" where
  "constraints_hold tbl = (distinct (map col_id tbl) \<and> list_all row_ok tbl)"

text \<open>
  A task the table takes as it is: no text value holds U+0000, every value is within
  its column, priority and status are of the enumerations, and the due date, when
  given, is one that \<^verbatim>\<open>new Date\<close> can read and whose wall-clock reading is within the
  range of \<^verbatim>\<open>TIMESTAMP\<close>.
\<close>

definition accepted :: "runtime \<Rightarrow> new_task \<Rightarrow> bool" where
  "accepted rt t =
     (\<not> has_nul (in_id t) \<and> \<not> has_nul (in_title t)
      \<and> (case in_description t of None \<Rightarrow> True | Some s \<Rightarrow> \<not> has_nul s)
      \<and> (case in_assigned_to t of None \<Rightarrow> True | Some s \<Rightarrow> \<not> has_nul s)
      \<and> \<not> has_nul (in_pushed_by t)
      \<and> length (in_id t) \<le> 255 \<and> length (in_title t) \<le> 500
      \<and> (case in_assigned_to t of None \<Rightarrow> True | Some a \<Rightarrow> length a \<le> 255)
      \<and> length (in_pushed_by t) \<le> 255
      \<and> check_priority (in_priority t) \<and> check_status (in_status t)
      \<and> date_error (date_param rt (in_due_date t)) = None)"

text \<open>The row that an accepted task becomes when it is inserted at \<open>now\<close>.\<close>

definition stored_row :: "runtime \<Rightarrow> timestamp \<Rightarrow> new_task \<Rightarrow> row" where
  "stored_row rt now t =
     \<lparr> col_id = in_id t,
       col_title = in_title t,
       col_description = or_null (in_description t),
       col_priority = in_priority t,
       col_due_date = stored_date (date_param rt (in_due_date t)),
       col_assigned_to = or_null (in_assigned_to t),
       col_status = in_status t,
       col_created_at = now,
       col_updated_at = now,
       col_pushed_by = in_pushed_by t \<rparr>"

text \<open>The update \<^verbatim>\<open>{}\<close> and the update \<^verbatim>\<open>{status: s}\<close>.\<close>

definition no_updates :: updates where
  "no_updates =
     \<lparr> upd_title = None, upd_description = None, upd_priority = None, upd_due_date = None,
       upd_assigned_to = None, upd_status = None, upd_pushed_by = None \<rparr>"

definition status_only :: "string \<Rightarrow> updates" where
  "status_only s = no_updates\<lparr>upd_status := Some s\<rparr>"

section \<open>Example states\<close>

text \<open>
  An environment with a connection string and a manager key, and the runtime of a
  process whose time zone is UTC, which agrees with JavaScript on the dates the
  examples use.
\<close>

definition example_env :: env where
  "example_env =
     \<lparr> DATABASE_URL = Some ''postgres://db/board'', POSTGRES_URL = None,
       API_SECRET_KEY = Some ''manager-secret'', NEXT_PUBLIC_TEAM_API_KEY = None \<rparr>"

definition example_runtime :: runtime where
  "example_runtime =
     \<lparr> new_Date = (\<lambda>s. if s = ''2025-01-01'' then Some 1735689600000
                        else if s = ''-010000-01-01T00:00:00.000Z'' then Some (- 377736739200000)
                        else None),
       toISOString = (\<lambda>t. if t = 1735689600000 then ''2025-01-01T00:00:00.000Z''
                          else if t = 1700000000000 then ''2023-11-14T22:13:20.000Z''
                          else if t = 1700000060000 then ''2023-11-14T22:14:20.000Z''
                          else []),
       wall_clock = (\<lambda>t. t),
       from_wall_clock = (\<lambda>t. t) \<rparr>"

definition example_row :: row where
  "example_row =
     \<lparr> col_id = ''task_sample_1'', col_title = ''Complete inventory count'',
       col_description = Some ''Check all dry storage and walk-in coolers'',
       col_priority = ''high'', col_due_date = None, col_assigned_to = None,
       col_status = ''todo'', col_created_at = 1700000000000,
       col_updated_at = 1700000000000, col_pushed_by = ''ChiliHead System'' \<rparr>"

definition empty_world :: world where
  "empty_world = \<lparr> pool = None, reachable = True, team_tasks = [] \<rparr>"

definition example_world :: world where
  "example_world = \<lparr> pool = None, reachable = True, team_tasks = [example_row] \<rparr>"

text \<open>
  Five tasks: two \<open>todo\<close> (one of them due in the past), one \<open>in_progress\<close> and two
  \<open>completed\<close> (one of them due in the past).
\<close>

definition stats_table :: "row list" where
  "stats_table =
     [ example_row,
       example_row\<lparr>col_id := ''task_2'', col_due_date := Some 1600000000000\<rparr>,
       example_row\<lparr>col_id := ''task_3'', col_status := ''in_progress''\<rparr>,
       example_row\<lparr>col_id := ''task_4'', col_status := ''completed'',
                    col_due_date := Some 1600000000000\<rparr>,
       example_row\<lparr>col_id := ''task_5'', col_status := ''completed''\<rparr> ]"

text \<open>Three tasks created at three instants, the two newer ones completed.\<close>

definition list_table :: "row list" where
  "list_table =
     [ example_row\<lparr>col_id := ''task_b'', col_status := ''completed'',
                    col_created_at := 1700000060000, col_updated_at := 1700000060000\<rparr>,
       example_row,
       example_row\<lparr>col_id := ''task_c'', col_status := ''completed'',
                    col_created_at := 1735689600000, col_updated_at := 1735689600000\<rparr> ]"

text \<open>
  Two tasks for the examples: one with every optional field given, and one as
  \<^verbatim>\<open>POST\<close> builds it from a body with a title only, whose description is the empty
  string.
\<close>

definition full_task :: new_task where
  "full_task =
     \<lparr> in_id = ''task_7'', in_title = ''Order limes'',
       in_description = Some ''Two cases for the weekend'', in_priority = ''urgent'',
       in_due_date = Some ''2025-01-01'', in_assigned_to = Some ''Dana'',
       in_status = ''in_progress'', in_pushed_by = ''Manager'' \<rparr>"

definition title_only_task :: new_task where
  "title_only_task =
     \<lparr> in_id = ''task_9'', in_title = ''Clean fryers'', in_description = Some [],
       in_priority = ''normal'', in_due_date = None, in_assigned_to = None,
       in_status = ''todo'', in_pushed_by = ''ChiliHead System'' \<rparr>"

text \<open>
  Requests for the examples: a create with the manager key and a priority outside the
  enumeration; a create with the manager key that repeats the id of \<open>full_task\<close>; a
  valid create that presents the default team key; the same with no key.
\<close>

definition title_only_body :: body where
  "title_only_body =
     \<lparr> body_id = Some ''task_9'', body_title = Some ''Clean fryers'', body_description = None,
       body_priority = None, body_due_date = None, body_assigned_to = None,
       body_status = None, body_pushed_by = None \<rparr>"

definition extreme_request :: request where
  "extreme_request =
     \<lparr> x_api_key = Some ''manager-secret'', param_status = None, param_id = None,
       json = Some (title_only_body\<lparr>body_priority := Some ''extreme''\<rparr>) \<rparr>"

definition duplicate_request :: request where
  "duplicate_request =
     \<lparr> x_api_key = Some ''manager-secret'', param_status = None, param_id = None,
       json = Some (title_only_body\<lparr>body_id := Some ''task_7''\<rparr>) \<rparr>"

definition team_request :: request where
  "team_request =
     \<lparr> x_api_key = Some ''team-member-access'', param_status = None, param_id = None,
       json = Some title_only_body \<rparr>"

definition anonymous_request :: request where
  "anonymous_request = team_request\<lparr>x_api_key := None\<rparr>"


text \<open>
  Four tasks the server refuses: a title that holds U+0000; a due date that
  \<^verbatim>\<open>new Date\<close> reads (the first of January of the year 10001 BC) and that lies
  before the first day a \<^verbatim>\<open>TIMESTAMP\<close> can hold; a title of 501 characters; and
  the id of \<open>example_row\<close>.
\<close>

definition nul_title_task :: new_task where
  "nul_title_task = title_only_task\<lparr>in_title := ''Clean'' @ [CHR 0x00] @ ''fryers''\<rparr>"

definition ancient_task :: new_task where
  "ancient_task = title_only_task\<lparr>in_due_date := Some ''-010000-01-01T00:00:00.000Z''\<rparr>"

definition long_title_task :: new_task where
  "long_title_task = title_only_task\<lparr>in_title := replicate 501 CHR ''x''\<rparr>"

definition taken_id_task :: new_task where
  "taken_id_task = title_only_task\<lparr>in_id := ''task_sample_1''\<rparr>"

text \<open>
  Two more creates with the manager key: one whose priority is the empty string, and
  one without a title.
\<close>

definition empty_priority_request :: request where
  "empty_priority_request =
     \<lparr> x_api_key = Some ''manager-secret'', param_status = None, param_id = None,
       json = Some (title_only_body\<lparr>body_priority := Some ''''\<rparr>) \<rparr>"

definition untitled_request :: request where
  "untitled_request =
     \<lparr> x_api_key = Some ''manager-secret'', param_status = None, param_id = None,
       json = Some (title_only_body\<lparr>body_title := None\<rparr>) \<rparr>"

section \<open>Facts about the statements\<close>

lemma sum_list_indicator:
  "sum_list (map (\<lambda>r. if c r then 1 else 0) xs) = length (filter c xs)"
  by (induction xs) auto

lemma filter_id_distinct:
  "distinct (map col_id tbl) \<Longrightarrow> r \<in> set tbl \<Longrightarrow> filter (\<lambda>x. col_id x = col_id r) tbl = [r]"
  by (induction tbl) (auto simp: filter_empty_conv image_iff)

lemma sorted_desc_sort_key:
  "sorted_wrt (\<lambda>a b. col_created_at b \<le> col_created_at a) (sort_key (\<lambda>r. - col_created_at r) xs)"
proof -
  have "sorted (map (\<lambda>r. - col_created_at r) (sort_key (\<lambda>r. - col_created_at r) xs))"
    by (rule sorted_sort_key)
  then show ?thesis by (simp add: sorted_map)
qed

lemma check_status_short: "check_status s \<Longrightarrow> length s \<le> 11"
  by (auto simp: check_status_def)

lemma check_priority_short: "check_priority s \<Longrightarrow> length s \<le> 6"
  by (auto simp: check_priority_def)

lemma check_status_no_nul: "check_status s \<Longrightarrow> \<not> has_nul s"
  by (auto simp: check_status_def has_nul_def)

lemma check_priority_no_nul: "check_priority s \<Longrightarrow> \<not> has_nul s"
  by (auto simp: check_priority_def has_nul_def)

lemma check_priority_take: "check_priority (take 20 p) \<Longrightarrow> take 20 p = p"
proof -
  assume "check_priority (take 20 p)"
  then have "length (take 20 p) \<le> 6" by (rule check_priority_short)
  then have "length p \<le> 20" by (simp add: min_def split: if_splits)
  then show ?thesis by simp
qed

lemma check_status_take: "check_status (take 50 p) \<Longrightarrow> take 50 p = p"
proof -
  assume "check_status (take 50 p)"
  then have "length (take 50 p) \<le> 11" by (rule check_status_short)
  then have "length p \<le> 50" by (simp add: min_def split: if_splits)
  then show ?thesis by simp
qed

lemma has_nul_take: "\<not> has_nul s \<Longrightarrow> \<not> has_nul (take n s)"
  by (auto simp: has_nul_def dest: in_set_takeD)

lemma fits_short: "length s \<le> n \<Longrightarrow> fits n s"
  by (simp add: fits_def)

lemma or_null_short: "(case a of None \<Rightarrow> True | Some s \<Rightarrow> length s \<le> n) \<Longrightarrow> fits_opt n (or_null a)"
  by (auto simp: fits_opt_def or_null_def fits_def split: option.splits)

lemma take_or_null: "(case a of None \<Rightarrow> True | Some s \<Rightarrow> length s \<le> n) \<Longrightarrow> map_option (take n) (or_null a) = or_null a"
  by (auto simp: or_null_def split: option.splits)

lemma or_null_no_nul:
  "(case a of None \<Rightarrow> True | Some s \<Rightarrow> \<not> has_nul s)
   \<Longrightarrow> (case or_null a of None \<Rightarrow> True | Some s \<Rightarrow> \<not> has_nul s)"
  by (auto simp: or_null_def split: option.splits)

lemma due_date_rendering:
  "map_option (row_date rt) (stored_date (date_param rt d))
     = (case or_null d of None \<Rightarrow> None
        | Some s \<Rightarrow> map_option (\<lambda>t. row_date rt (wall_clock rt t)) (new_Date rt s))"
  by (auto simp: date_param_def or_null_def truthy_def split: option.splits)

lemma insert_task_invalid_enum:
  assumes "\<not> check_priority (v_priority v) \<or> \<not> check_status (v_status v)"
  shows "\<exists>c. insert_task now v tbl = Inl c"
proof -
  have "\<not> check_priority (take 20 (v_priority v)) \<or> \<not> check_status (take 50 (v_status v))"
    using assms check_priority_take check_status_take by metis
  then show ?thesis by (auto simp: insert_task_def Let_def split: option.splits)
qed

lemma insert_task_duplicate:
  assumes "list_ex (\<lambda>x. col_id x = take 255 (v_id v)) tbl"
  shows "\<exists>c. insert_task now v tbl = Inl c"
  using assms by (auto simp: insert_task_def Let_def split: option.splits)

lemma insert_task_success:
  assumes "insert_task now v tbl = Inr (tbl', rows)"
  shows "\<exists>r. tbl' = tbl @ [r] \<and> rows = [r] \<and> col_id r = take 255 (v_id v)
             \<and> \<not> list_ex (\<lambda>x. col_id x = col_id r) tbl"
  using assms by (auto simp: insert_task_def Let_def split: if_splits option.splits)

lemma insert_texts_accepted:
  assumes "accepted rt t"
  shows "\<not> list_ex has_nul (insert_texts (insert_params rt t))"
proof -
  have "\<not> has_nul (in_priority t)" "\<not> has_nul (in_status t)"
    using assms check_priority_no_nul check_status_no_nul by (auto simp: accepted_def)
  moreover have "case or_null (in_description t) of None \<Rightarrow> True | Some s \<Rightarrow> \<not> has_nul s"
    "case or_null (in_assigned_to t) of None \<Rightarrow> True | Some s \<Rightarrow> \<not> has_nul s"
    using assms by (auto simp: accepted_def intro: or_null_no_nul)
  ultimately show ?thesis
    using assms by (auto simp: insert_texts_def insert_params_def accepted_def split: option.splits)
qed

lemma insert_task_accepted:
  assumes "accepted rt t" and "\<not> list_ex (\<lambda>x. col_id x = in_id t) tbl"
  shows "insert_task now (insert_params rt t) tbl
           = Inr (tbl @ [stored_row rt now t], [stored_row rt now t])"
proof -
  have l: "length (in_priority t) \<le> 20" "length (in_status t) \<le> 50"
    using assms(1) check_priority_short[of "in_priority t"] check_status_short[of "in_status t"]
    by (auto simp: accepted_def)
  show ?thesis
    using assms l
    by (simp add: insert_task_def insert_params_def accepted_def fits_short or_null_short
        take_or_null stored_row_def Let_def)
qed

subsection \<open>Every statement keeps what holds of a table\<close>

lemma assign_keeps_id: "col_id (assign a r) = col_id r"
  by (cases a) simp_all

lemma fold_assign_keeps_id: "col_id (fold assign flds r) = col_id r"
  by (induction flds arbitrary: r) (simp_all add: assign_keeps_id)

lemma new_row_keeps_id: "col_id (new_row now flds r) = col_id r"
  by (simp add: new_row_def fold_assign_keeps_id)

lemma assign_keeps_lengths: "lengths_ok r \<Longrightarrow> lengths_ok (assign a r)"
  by (cases a) (auto simp: lengths_ok_def split: option.splits)

lemma fold_assign_keeps_lengths: "lengths_ok r \<Longrightarrow> lengths_ok (fold assign flds r)"
  by (induction flds arbitrary: r) (simp_all add: assign_keeps_lengths)

lemma assign_keeps_texts:
  "texts_ok r \<Longrightarrow> \<not> list_ex has_nul (assignment_texts a) \<Longrightarrow> texts_ok (assign a r)"
  by (cases a) (auto simp: texts_ok_def has_nul_take split: option.splits)

lemma fold_assign_keeps_texts:
  "texts_ok r \<Longrightarrow> \<not> list_ex has_nul (concat (map assignment_texts flds))
   \<Longrightarrow> texts_ok (fold assign flds r)"
  by (induction flds arbitrary: r) (simp_all add: assign_keeps_texts)

lemma insert_task_keeps_constraints:
  assumes "constraints_hold tbl" and "\<not> list_ex has_nul (insert_texts v)"
      and "insert_task now v tbl = Inr (tbl', rows)"
  shows "constraints_hold tbl'"
proof -
  let ?r = "\<lparr> col_id = take 255 (v_id v), col_title = take 500 (v_title v),
              col_description = v_description v, col_priority = take 20 (v_priority v),
              col_due_date = stored_date (v_due_date v),
              col_assigned_to = map_option (take 255) (v_assigned_to v),
              col_status = take 50 (v_status v), col_created_at = now,
              col_updated_at = now, col_pushed_by = take 255 (v_pushed_by v) \<rparr>"
  from assms(3) have t: "tbl' = tbl @ [?r]"
    and c: "check_priority (col_priority ?r)" "check_status (col_status ?r)"
    and f: "\<not> list_ex (\<lambda>x. col_id x = col_id ?r) tbl"
    by (auto simp: insert_task_def Let_def split: if_splits option.splits)
  have "texts_ok ?r"
    using assms(2) by (auto simp: texts_ok_def insert_texts_def has_nul_take split: option.splits)
  then have "row_ok ?r" using c by (auto simp: row_ok_def lengths_ok_def split: option.splits)
  moreover have "col_id ?r \<notin> set (map col_id tbl)" using f by (auto simp: list_ex_iff)
  ultimately show ?thesis
    using assms(1) unfolding t constraints_hold_def by simp
qed

lemma update_task_keeps_constraints:
  assumes "constraints_hold tbl" and "\<not> list_ex has_nul (concat (map assignment_texts flds))"
      and "update_task now flds i tbl = Inr (tbl', rows)"
  shows "constraints_hold tbl'"
proof -
  let ?f = "\<lambda>r. if col_id r = i then new_row now flds r else r"
  from assms(3) have t: "tbl' = map ?f tbl"
    and c: "\<not> list_ex (\<lambda>r. \<not> check_priority (col_priority (new_row now flds r))
                         \<or> \<not> check_status (col_status (new_row now flds r)))
               (filter (\<lambda>r. col_id r = i) tbl)"
    by (auto simp: update_task_def Let_def split: list.splits if_splits)
  have ids: "map col_id tbl' = map col_id tbl"
    unfolding t by (simp add: new_row_keeps_id)
  have ok: "row_ok (new_row now flds r)" if "r \<in> set tbl" "col_id r = i" for r
  proof -
    from that assms(1) have "lengths_ok r" "texts_ok r"
      by (auto simp: constraints_hold_def list_all_iff row_ok_def)
    then have "lengths_ok (fold assign flds r)" "texts_ok (fold assign flds r)"
      using assms(2) by (auto intro: fold_assign_keeps_lengths fold_assign_keeps_texts)
    then have "lengths_ok (new_row now flds r)" "texts_ok (new_row now flds r)"
      by (simp_all add: new_row_def lengths_ok_def texts_ok_def)
    moreover from c that have "check_priority (col_priority (new_row now flds r))
        \<and> check_status (col_status (new_row now flds r))"
      by (auto simp: list_ex_iff)
    ultimately show ?thesis by (simp add: row_ok_def)
  qed
  have "distinct (map col_id tbl')"
    unfolding ids using assms(1) by (simp add: constraints_hold_def)
  moreover have "list_all row_ok tbl'"
    unfolding t using ok assms(1) by (auto simp: list_all_iff constraints_hold_def)
  ultimately show ?thesis by (simp add: constraints_hold_def)
qed

lemma delete_task_keeps_constraints:
  assumes "constraints_hold tbl" and "delete_task i tbl = Inr (tbl', n)"
  shows "constraints_hold tbl'"
  using assms by (auto simp: delete_task_def constraints_hold_def list_all_iff distinct_map_filter)

section \<open>Facts about the store\<close>

lemma getPool_configured:
  "configured e w \<Longrightarrow>
     \<exists>w'. getPool e w = (w', Inr ()) \<and> team_tasks w' = team_tasks w
          \<and> reachable w' = reachable w \<and> pool w' \<noteq> None"
  by (auto simp: configured_def getPool_def Let_def truthy_def split: option.splits)

lemma getPool_cases:
  "(getPool e w = (w, Inl NotConfigured) \<and> \<not> configured e w)
   \<or> (\<exists>w'. getPool e w = (w', Inr ()) \<and> team_tasks w' = team_tasks w
            \<and> reachable w' = reachable w \<and> pool w' \<noteq> None \<and> configured e w)"
  by (auto simp: configured_def getPool_def Let_def truthy_def or_else_def split: option.splits)

lemma getPool_pooled: "pool w \<noteq> None \<Longrightarrow> getPool e w = (w, Inr ())"
  by (auto simp: getPool_def)

lemma getTaskById_available:
  assumes "available e w" and "\<not> has_nul i"
  shows "\<exists>w'. getTaskById e rt w i =
           (w', Inr (case filter (\<lambda>r. col_id r = i) (team_tasks w) of
                       [] \<Rightarrow> None | r # _ \<Rightarrow> Some (to_task rt r)))
         \<and> team_tasks w' = team_tasks w \<and> reachable w' = reachable w \<and> pool w' \<noteq> None"
proof -
  from assms obtain w' where g: "getPool e w = (w', Inr ())" "team_tasks w' = team_tasks w"
      "reachable w' = reachable w" "pool w' \<noteq> None" and r: "reachable w"
    using getPool_configured unfolding available_def by blast
  show ?thesis
    using g r assms(2)
    by (simp add: getTaskById_def pool_query_def select_by_id_def split: list.splits)
qed

lemma getTaskById_refused:
  assumes "available e w" and "has_nul i"
  shows "snd (getTaskById e rt w i) = Inl FailedToFetch"
proof -
  from assms obtain w' where g: "getPool e w = (w', Inr ())" "reachable w' = reachable w"
    and r: "reachable w"
    using getPool_configured unfolding available_def by blast
  show ?thesis using g r assms(2) by (simp add: getTaskById_def pool_query_def)
qed

lemma getTaskById_keeps_table: "team_tasks (fst (getTaskById e rt w i)) = team_tasks w"
  using getPool_cases[of e w]
  by (auto simp: getTaskById_def pool_query_def split: sum.splits list.splits)

lemma getTaskById_last:
  assumes "available e w" and "team_tasks w = tbl @ [r]"
      and "\<not> list_ex (\<lambda>x. col_id x = col_id r) tbl" and "\<not> has_nul (col_id r)"
  shows "snd (getTaskById e rt w (col_id r)) = Inr (Some (to_task rt r))"
proof -
  have "filter (\<lambda>x. col_id x = col_id r) (team_tasks w) = [r]"
    using assms(2,3) by (auto simp: list_ex_iff filter_empty_conv)
  with getTaskById_available[OF assms(1,4), of rt] show ?thesis by auto
qed

lemma parseInt_or_0_sum: "parseInt_or_0 (sql_sum c tbl) = length (filter c tbl)"
  by (simp add: parseInt_or_0_def sql_sum_def sum_list_indicator)

lemma getTaskStats_configured:
  assumes "configured e w"
  shows "snd (getTaskStats e now w) =
           (if reachable w
            then Inr \<lparr> total = length (team_tasks w),
                    todo = length (filter (\<lambda>r. col_status r = ''todo'') (team_tasks w)),
                    in_progress =
                      length (filter (\<lambda>r. col_status r = ''in_progress'') (team_tasks w)),
                    completed =
                      length (filter (\<lambda>r. col_status r = ''completed'') (team_tasks w)),
                    overdue = length (filter (is_overdue now) (team_tasks w)) \<rparr>
            else Inr no_stats)
        \<and> team_tasks (fst (getTaskStats e now w)) = team_tasks w"
proof -
  from assms obtain w' where g: "getPool e w = (w', Inr ())" "team_tasks w' = team_tasks w"
      "reachable w' = reachable w"
    using getPool_configured by blast
  show ?thesis
    using g
    by (simp add: getTaskStats_def pool_query_def select_stats_def parseInt_or_0_sum)
       (simp add: parseInt_or_0_def)
qed

lemma getTasks_or_null: "getTasks e rt w (or_null st) = getTasks e rt w st"
  by (simp add: getTasks_def or_null_def truthy_def split: option.splits)

lemma getTasks_available:
  assumes "available e w" and "case or_null st of None \<Rightarrow> True | Some s \<Rightarrow> \<not> has_nul s"
  shows "snd (getTasks e rt w st)
           = Inr (map (to_task rt)
                (sort_key (\<lambda>r. - col_created_at r)
                   (case or_null st of None \<Rightarrow> team_tasks w
                    | Some s \<Rightarrow> filter (\<lambda>r. col_status r = s) (team_tasks w))))
       \<and> team_tasks (fst (getTasks e rt w st)) = team_tasks w"
proof -
  from assms obtain w' where g: "getPool e w = (w', Inr ())" "team_tasks w' = team_tasks w"
      "reachable w' = reachable w" and re: "reachable w"
    using getPool_configured unfolding available_def by blast
  show ?thesis
    using g re assms(2)
    by (auto simp: getTasks_def pool_query_def select_tasks_def Let_def split: option.splits)
qed

lemma getTasks_refused:
  assumes "available e w" and "or_null st = Some s" and "has_nul s"
  shows "snd (getTasks e rt w st) = Inl (FailedToFetchTasks (Pg CharacterNotInRepertoire))
       \<and> team_tasks (fst (getTasks e rt w st)) = team_tasks w"
proof -
  from assms obtain w' where g: "getPool e w = (w', Inr ())" "team_tasks w' = team_tasks w"
      "reachable w' = reachable w" and re: "reachable w"
    using getPool_configured unfolding available_def by blast
  show ?thesis
    using g re assms(2,3) by (simp add: getTasks_def pool_query_def Let_def)
qed

lemma deleteTask_available:
  assumes "available e w" and "\<not> has_nul i"
  shows "\<exists>w'. deleteTask e w i
           = (w'\<lparr>team_tasks := filter (\<lambda>r. col_id r \<noteq> i) (team_tasks w)\<rparr>,
              Inr (list_ex (\<lambda>r. col_id r = i) (team_tasks w)))
          \<and> reachable w' \<and> pool w' \<noteq> None"
proof -
  from assms obtain w' where g: "getPool e w = (w', Inr ())" "team_tasks w' = team_tasks w"
      "reachable w' = reachable w" "pool w' \<noteq> None" and r: "reachable w"
    using getPool_configured unfolding available_def by blast
  show ?thesis
    using g r assms(2)
    by (intro exI[of _ w'])
       (simp add: deleteTask_def pool_query_def delete_task_def list_ex_iff filter_empty_conv)
qed

lemma deleteTask_refused:
  assumes "available e w" and "has_nul i"
  shows "snd (deleteTask e w i) = Inl FailedToDelete
       \<and> team_tasks (fst (deleteTask e w i)) = team_tasks w"
proof -
  from assms obtain w' where g: "getPool e w = (w', Inr ())" "team_tasks w' = team_tasks w"
      "reachable w' = reachable w" and r: "reachable w"
    using getPool_configured unfolding available_def by blast
  show ?thesis using g r assms(2) by (simp add: deleteTask_def pool_query_def)
qed

lemma addTask_failure:
  "snd (addTask e rt now w t) = Inl x \<Longrightarrow> team_tasks (fst (addTask e rt now w t)) = team_tasks w"
  using getPool_cases[of e w]
  by (auto simp: addTask_def pool_query_def insert_task_def Let_def
      split: if_splits option.splits)

lemma addTask_accepted:
  assumes "available e w" and "accepted rt t" and "\<not> list_ex (\<lambda>x. col_id x = in_id t) (team_tasks w)"
  shows "snd (addTask e rt now w t) = Inr (to_task rt (stored_row rt now t))
       \<and> team_tasks (fst (addTask e rt now w t)) = team_tasks w @ [stored_row rt now t]
       \<and> available e (fst (addTask e rt now w t))"
proof -
  from assms obtain w' where g: "getPool e w = (w', Inr ())" "team_tasks w' = team_tasks w"
      "reachable w' = reachable w" "pool w' \<noteq> None" and re: "reachable w"
    using getPool_configured unfolding available_def by blast
  show ?thesis
    using g re insert_task_accepted[OF assms(2,3), of now] insert_texts_accepted[OF assms(2)]
    by (simp add: addTask_def pool_query_def available_def configured_def)
qed

lemma addTask_success:
  assumes "snd (addTask e rt now w t) = Inr T"
  shows "\<exists>r. T = to_task rt r \<and> team_tasks (fst (addTask e rt now w t)) = team_tasks w @ [r]
            \<and> col_id r = take 255 (in_id t) \<and> \<not> list_ex (\<lambda>x. col_id x = col_id r) (team_tasks w)
            \<and> \<not> has_nul (col_id r) \<and> available e (fst (addTask e rt now w t))"
proof -
  from assms getPool_cases[of e w] obtain w' where g: "getPool e w = (w', Inr ())"
      "team_tasks w' = team_tasks w" "reachable w' = reachable w" "pool w' \<noteq> None"
    by (auto simp: addTask_def)
  from assms g have re: "reachable w" by (auto simp: addTask_def pool_query_def split: if_splits)
  from assms g re have n: "\<not> list_ex has_nul (insert_texts (insert_params rt t))"
    by (auto simp: addTask_def pool_query_def split: if_splits)
  then have ni: "\<not> has_nul (take 255 (in_id t))"
    by (auto simp: insert_texts_def insert_params_def has_nul_take)
  from assms g re n obtain tbl' rows where
    i: "insert_task now (insert_params rt t) (team_tasks w) = Inr (tbl', rows)"
    by (auto simp: addTask_def pool_query_def split: sum.splits)
  from insert_task_success[OF i] obtain r where r: "tbl' = team_tasks w @ [r]" "rows = [r]"
      "col_id r = take 255 (v_id (insert_params rt t))" "\<not> list_ex (\<lambda>x. col_id x = col_id r) (team_tasks w)"
    by blast
  show ?thesis
    using assms g re n ni i r
    by (auto simp: addTask_def pool_query_def insert_params_def available_def configured_def)
qed

lemma addTask_rejected:
  assumes "insert_task now (insert_params rt t) (team_tasks w) = Inl c"
  shows "\<exists>x. snd (addTask e rt now w t) = Inl x"
  using getPool_cases[of e w] assms
  by (auto simp: addTask_def pool_query_def)

lemma addTask_refused:
  assumes "list_ex has_nul (insert_texts (insert_params rt t))"
  shows "\<exists>x. snd (addTask e rt now w t) = Inl x"
  using getPool_cases[of e w] assms
  by (auto simp: addTask_def pool_query_def)

lemma addTask_error_is_generic:
  assumes "configured e w" and "snd (addTask e rt now w t) = Inl x"
  shows "x = FailedToAdd"
proof -
  from assms(1) obtain w' where g: "getPool e w = (w', Inr ())"
    using getPool_configured by blast
  show ?thesis
    using assms(2) g
    by (auto simp: addTask_def split: sum.splits list.splits)
qed

lemma addTask_keeps_available:
  "available e w \<Longrightarrow> available e (fst (addTask e rt now w t))"
  using getPool_cases[of e w]
  by (auto simp: addTask_def available_def configured_def pool_query_def
      split: sum.splits list.splits)

lemma addTask_same_id:
  assumes "snd (addTask e rt now w t1) = Inr T1" and "in_id t = in_id t1"
  shows "snd (addTask e rt now2 (fst (addTask e rt now w t1)) t) = Inl FailedToAdd
       \<and> team_tasks (fst (addTask e rt now2 (fst (addTask e rt now w t1)) t))
           = team_tasks (fst (addTask e rt now w t1))"
proof -
  let ?w1 = "fst (addTask e rt now w t1)"
  from addTask_success[OF assms(1)] obtain r where
    r: "team_tasks ?w1 = team_tasks w @ [r]" "col_id r = take 255 (in_id t1)" "available e ?w1"
    by blast
  have "list_ex (\<lambda>x. col_id x = take 255 (v_id (insert_params rt t))) (team_tasks ?w1)"
    using r(1,2) assms(2) by (simp add: insert_params_def)
  from insert_task_duplicate[OF this] obtain c where
    "insert_task now2 (insert_params rt t) (team_tasks ?w1) = Inl c" by blast
  from addTask_rejected[OF this] obtain x where x: "snd (addTask e rt now2 ?w1 t) = Inl x" by blast
  have c1: "configured e ?w1" using r(3) by (simp add: available_def)
  show ?thesis
    using addTask_error_is_generic[OF c1 x] x addTask_failure[OF x] by simp
qed

lemma addTask_then_getTaskById_row:
  assumes "available e w" and "accepted rt t"
      and "\<not> list_ex (\<lambda>x. col_id x = in_id t) (team_tasks w)"
  shows "snd (getTaskById e rt (fst (addTask e rt now w t)) (in_id t))
           = Inr (Some (to_task rt (stored_row rt now t)))"
proof -
  note a = addTask_accepted[OF assms, of now]
  have f: "filter (\<lambda>x. col_id x = in_id t) (team_tasks (fst (addTask e rt now w t)))
             = [stored_row rt now t]"
    using a assms(3) by (auto simp: stored_row_def list_ex_iff filter_empty_conv)
  from a have av: "available e (fst (addTask e rt now w t))" by simp
  have n: "\<not> has_nul (in_id t)" using assms(2) by (simp add: accepted_def)
  from getTaskById_available[OF av n, of rt] f
  show ?thesis by auto
qed

lemma addTask_keeps_constraints:
  "constraints_hold (team_tasks w) \<Longrightarrow> constraints_hold (team_tasks (fst (addTask e rt now w t)))"
  using getPool_cases[of e w]
  by (auto simp: addTask_def pool_query_def split: sum.splits list.splits if_splits
      dest: insert_task_keeps_constraints)

lemma updateTask_keeps_constraints:
  "constraints_hold (team_tasks w) \<Longrightarrow> constraints_hold (team_tasks (fst (updateTask e rt now w i u)))"
  using getPool_cases[of e w]
  by (auto simp: updateTask_def pool_query_def Let_def getTaskById_keeps_table
      split: sum.splits list.splits if_splits dest: update_task_keeps_constraints)

lemma deleteTask_keeps_constraints:
  "constraints_hold (team_tasks w) \<Longrightarrow> constraints_hold (team_tasks (fst (deleteTask e w i)))"
  using getPool_cases[of e w]
  by (auto simp: deleteTask_def pool_query_def split: sum.splits if_splits
      dest: delete_task_keeps_constraints)

lemma filter_id_replaced:
  assumes "col_id r' = i"
  shows "filter (\<lambda>x. col_id x = i) (map (\<lambda>x. if col_id x = i then r' else x) tbl)
           = map (\<lambda>x. r') (filter (\<lambda>x. col_id x = i) tbl)"
  using assms by (induction tbl) auto

lemma updateTask_status_row:
  assumes "available e w" and "constraints_hold (team_tasks w)" and "r \<in> set (team_tasks w)"
      and "check_status s"
  shows "snd (updateTask e rt now w (col_id r) (status_only s))
           = Inr (Some ((to_task rt r)\<lparr>status := s, updated_at := row_date rt now\<rparr>))
       \<and> team_tasks (fst (updateTask e rt now w (col_id r) (status_only s)))
           = map (\<lambda>x. if col_id x = col_id r then r\<lparr>col_status := s, col_updated_at := now\<rparr> else x)
               (team_tasks w)
       \<and> filter (\<lambda>x. col_id x = col_id r)
            (team_tasks (fst (updateTask e rt now w (col_id r) (status_only s))))
           = [r\<lparr>col_status := s, col_updated_at := now\<rparr>]"
proof -
  from assms obtain w' where g: "getPool e w = (w', Inr ())" "team_tasks w' = team_tasks w"
      "reachable w' = reachable w" "pool w' \<noteq> None" and re: "reachable w"
    using getPool_configured unfolding available_def by blast
  have b: "build_fields rt (status_only s) = [SetStatus s]"
    by (simp add: build_fields_def no_updates_def status_only_def)
  have f: "filter (\<lambda>x. col_id x = col_id r) (team_tasks w) = [r]"
    using assms(2,3) by (auto simp: constraints_hold_def intro: filter_id_distinct)
  have ok: "row_ok r" using assms(2,3) by (auto simp: constraints_hold_def list_all_iff)
  have ni: "\<not> has_nul (col_id r)" using ok by (simp add: row_ok_def texts_ok_def)
  have ns: "\<not> has_nul s" using check_status_no_nul[OF assms(4)] .
  have l: "length s \<le> 50" using check_status_short[OF assms(4)] by simp
  have n: "new_row now [SetStatus s] = (\<lambda>x. x\<lparr>col_status := s, col_updated_at := now\<rparr>)"
    using l by (simp add: new_row_def fun_eq_iff)
  have u: "update_task now [SetStatus s] (col_id r) (team_tasks w)
           = Inr (map (\<lambda>x. if col_id x = col_id r then r\<lparr>col_status := s, col_updated_at := now\<rparr> else x) (team_tasks w),
                  [r\<lparr>col_status := s, col_updated_at := now\<rparr>])"
  proof -
    have same: "x = r" if "x \<in> set (team_tasks w)" "col_id x = col_id r" for x
      using assms(2,3) that unfolding constraints_hold_def by (auto simp: distinct_map inj_on_def)
    show ?thesis
      using ok assms(4) l
      by (auto simp: update_task_def List.map_filter_simps fits_short f n row_ok_def dest: same)
  qed
  have t: "to_task rt (r\<lparr>col_status := s, col_updated_at := now\<rparr>)
           = (to_task rt r)\<lparr>status := s, updated_at := row_date rt now\<rparr>"
    by (simp add: to_task_def)
  have k: "filter (\<lambda>x. col_id x = col_id r)
             (map (\<lambda>x. if col_id x = col_id r then r\<lparr>col_status := s, col_updated_at := now\<rparr> else x)
                (team_tasks w))
           = [r\<lparr>col_status := s, col_updated_at := now\<rparr>]"
    by (simp add: filter_id_replaced f)
  show ?thesis
    using g re b u t ni ns k by (simp add: updateTask_def pool_query_def)
qed

section \<open>Facts about the handlers\<close>

lemma verifyApiKey_iff:
  "verifyApiKey e req =
     (truthy (API_SECRET_KEY e)
      \<and> (x_api_key req = API_SECRET_KEY e
          \<or> x_api_key req = Some (or_default (NEXT_PUBLIC_TEAM_API_KEY e) ''team-member-access'')))"
  by (auto simp: verifyApiKey_def Let_def truthy_def split: option.splits)

lemma unauthorized:
  assumes "\<not> verifyApiKey e req"
  shows "POST e rt d now w req
           = (w, \<lparr>http_status = 401, sent = Failure ''Unauthorized - Invalid API key''\<rparr>)"
    and "DELETE e w req
           = (w, \<lparr>http_status = 401, sent = Failure ''Unauthorized - Invalid API key''\<rparr>)"
  using assms by (simp_all add: POST_def DELETE_def)

lemma authorized:
  assumes "verifyApiKey e req"
  shows "http_status (snd (POST e rt d now w req)) \<noteq> 401"
    and "http_status (snd (DELETE e w req)) \<noteq> 401"
  using assms
  by (auto simp: POST_def DELETE_def split: option.splits prod.splits sum.splits)

lemma POST_addTask:
  assumes "verifyApiKey e req" and "json req = Some b" and "or_null (body_title b) = Some ttl"
  shows "POST e rt d now w req =
           (fst (addTask e rt now w (task_of_body d ttl b)),
            case snd (addTask e rt now w (task_of_body d ttl b)) of
              Inl _ \<Rightarrow> \<lparr>http_status = 500, sent = Failure ''Failed to create task''\<rparr>
            | Inr savedTask \<Rightarrow>
                \<lparr>http_status = 200, sent = TaskSaved savedTask ''Task pushed to team board''\<rparr>)"
  using assms by (simp add: POST_def split: prod.splits sum.splits)

lemma POST_accepted:
  assumes "verifyApiKey e req" and "json req = Some b" and "or_null (body_title b) = Some ttl"
      and "available e w" and "accepted rt (task_of_body d ttl b)"
      and "\<not> list_ex (\<lambda>x. col_id x = in_id (task_of_body d ttl b)) (team_tasks w)"
  shows "snd (POST e rt d now w req)
           = \<lparr>http_status = 200,
              sent = TaskSaved (to_task rt (stored_row rt now (task_of_body d ttl b)))
                       ''Task pushed to team board''\<rparr>
       \<and> team_tasks (fst (POST e rt d now w req))
           = team_tasks w @ [stored_row rt now (task_of_body d ttl b)]"
  using addTask_accepted[OF assms(4,5,6), of now]
  by (simp add: POST_addTask[OF assms(1,2,3)])

lemma GET_getTasks:
  "snd (GET e rt w req) =
     (case snd (getTasks e rt w (param_status req)) of
        Inl _ \<Rightarrow> \<lparr>http_status = 500, sent = Failure ''Failed to fetch tasks''\<rparr>
      | Inr tasks \<Rightarrow> \<lparr>http_status = 200, sent = TaskList tasks (length tasks)\<rparr>)"
  by (simp add: GET_def getTasks_or_null split: prod.splits sum.splits)

section \<open>Facts about the examples\<close>

lemmas ex_defs =
  example_env_def example_runtime_def example_row_def example_world_def empty_world_def

lemma ex_available: "available example_env example_world"
  by (simp add: available_def configured_def ex_defs truthy_def or_else_def)

lemma ex_configured:
  "configured example_env (example_world\<lparr>team_tasks := tbl\<rparr>)"
  "configured example_env (example_world\<lparr>reachable := b\<rparr>)"
  "configured example_env empty_world"
  by (simp_all add: configured_def ex_defs truthy_def or_else_def)

lemma ex_constraints: "constraints_hold (team_tasks example_world)"
  by (simp add: constraints_hold_def row_ok_def lengths_ok_def texts_ok_def has_nul_def
      check_priority_def check_status_def ex_defs)

lemma ex_member: "example_row \<in> set (team_tasks example_world)"
  by (simp add: example_world_def)

lemma ex_accepted: "accepted example_runtime full_task" "accepted example_runtime title_only_task"
  by (simp_all add: accepted_def full_task_def title_only_task_def check_priority_def
      check_status_def date_param_def example_runtime_def has_nul_def in_range_def
      timestamp_min_def timestamp_end_def or_null_def truthy_def)

lemma ex_fresh:
  "\<not> list_ex (\<lambda>x. col_id x = in_id full_task) (team_tasks example_world)"
  "\<not> list_ex (\<lambda>x. col_id x = in_id title_only_task) (team_tasks example_world)"
  by (simp_all add: full_task_def title_only_task_def example_world_def example_row_def)

lemma ex_verify: "verifyApiKey example_env extreme_request" "verifyApiKey example_env duplicate_request"
  "verifyApiKey example_env team_request" "verifyApiKey example_env empty_priority_request"
  by (simp_all add: verifyApiKey_def example_env_def extreme_request_def duplicate_request_def
      team_request_def empty_priority_request_def truthy_def or_default_def)

lemma ex_first_insert:
  "snd (addTask example_env example_runtime 1700000060000 example_world full_task)
     = Inr (to_task example_runtime (stored_row example_runtime 1700000060000 full_task))"
  using addTask_accepted[OF ex_available ex_accepted(1) ex_fresh(1), of 1700000060000] by simp

lemma ex_team_body:
  "json team_request = Some title_only_body"
  "or_null (body_title title_only_body) = Some ''Clean fryers''"
  "task_of_body d ''Clean fryers'' title_only_body = title_only_task"
  by (simp_all add: team_request_def title_only_body_def title_only_task_def or_null_def
      truthy_def task_of_body_def or_default_def)

lemma ex_empty_priority:
  "json empty_priority_request = Some (title_only_body\<lparr>body_priority := Some ''''\<rparr>)"
  "or_null (body_title (title_only_body\<lparr>body_priority := Some ''''\<rparr>)) = Some ''Clean fryers''"
  "task_of_body d ''Clean fryers'' (title_only_body\<lparr>body_priority := Some ''''\<rparr>) = title_only_task"
  by (simp_all add: empty_priority_request_def title_only_body_def title_only_task_def or_null_def
      truthy_def task_of_body_def or_default_def)

lemma ex_title_only_stored:
  "to_task example_runtime (stored_row example_runtime 1700000060000 title_only_task)
     = \<lparr> task_id = ''task_9'', title = ''Clean fryers'', description = None,
         priority = ''normal'', due_date = None, assigned_to = None,
         status = ''todo'', created_at = ''2023-11-14T22:14:20.000Z'',
         updated_at = ''2023-11-14T22:14:20.000Z'',
         pushed_by = ''ChiliHead System'' \<rparr>"
  by (simp add: to_task_def row_date_def stored_row_def title_only_task_def or_null_def truthy_def
      date_param_def example_runtime_def)

lemma ex_list_available: "available example_env (example_world\<lparr>team_tasks := list_table\<rparr>)"
  by (simp add: available_def configured_def ex_defs truthy_def or_else_def)

lemma ex_list_completed:
  "snd (getTasks example_env example_runtime (example_world\<lparr>team_tasks := list_table\<rparr>)
         (Some ''completed''))
     = Inr [ to_task example_runtime (list_table ! 2), to_task example_runtime (list_table ! 0) ]"
  using getTasks_available[OF ex_list_available, of "Some ''completed''" example_runtime]
  by (simp add: or_null_def truthy_def has_nul_def list_table_def example_row_def)

section \<open>The claims\<close>

text \<open>
  C1. For every create request that passes the key check and carries a non-empty
  title, whose priority or status, after an absent or empty value has been replaced by
  its default (\<open>normal\<close>, \<open>todo\<close>), is outside the enumerations: the handler does not
  check the value; it hands the task to \<^verbatim>\<open>addTask\<close>, whose state it keeps, and
  \<^verbatim>\<open>addTask\<close> fails; the response is HTTP 500 with the error
  \<^verbatim>\<open>Failed to create task\<close>, and no row is written. The counterexample that follows
  is the priority \<open>extreme\<close>, answered 500 and not 400 after the pool has been
  created, and the empty priority, which is not refused: the task is stored with the
  priority \<open>normal\<close>.
\<close>

theorem POST_invalid_enumeration:
  assumes "verifyApiKey e req" and "json req = Some b" and "or_null (body_title b) = Some ttl"
      and "\<not> check_priority (or_default (body_priority b) ''normal'')
           \<or> \<not> check_status (or_default (body_status b) ''todo'')"
  shows "fst (POST e rt d now w req) = fst (addTask e rt now w (task_of_body d ttl b))
       \<and> (\<exists>x. snd (addTask e rt now w (task_of_body d ttl b)) = Inl x)
       \<and> snd (POST e rt d now w req) = \<lparr>http_status = 500, sent = Failure ''Failed to create task''\<rparr>
       \<and> team_tasks (fst (POST e rt d now w req)) = team_tasks w"
proof -
  let ?t = "task_of_body d ttl b"
  have "\<not> check_priority (v_priority (insert_params rt ?t)) \<or> \<not> check_status (v_status (insert_params rt ?t))"
    using assms(4) by (simp add: insert_params_def task_of_body_def)
  from insert_task_invalid_enum[OF this] obtain c where
    "insert_task now (insert_params rt ?t) (team_tasks w) = Inl c" by blast
  from addTask_rejected[OF this] obtain x where x: "snd (addTask e rt now w ?t) = Inl x" by blast
  from addTask_failure[OF x] x show ?thesis
    by (simp add: POST_addTask[OF assms(1,2,3)])
qed

theorem POST_invalid_enumeration_witness:
  "verifyApiKey example_env extreme_request
   \<and> json extreme_request = Some (title_only_body\<lparr>body_priority := Some ''extreme''\<rparr>)
   \<and> or_null (body_title (title_only_body\<lparr>body_priority := Some ''extreme''\<rparr>)) = Some ''Clean fryers''
   \<and> \<not> check_priority (or_default (body_priority (title_only_body\<lparr>body_priority := Some ''extreme''\<rparr>)) ''normal'')
   \<and> snd (POST example_env example_runtime 1700000060000 1700000060000 example_world extreme_request)
       = \<lparr>http_status = 500, sent = Failure ''Failed to create task''\<rparr>
   \<and> team_tasks (fst (POST example_env example_runtime 1700000060000 1700000060000 example_world extreme_request))
       = [example_row]"
proof -
  have j: "json extreme_request = Some (title_only_body\<lparr>body_priority := Some ''extreme''\<rparr>)"
    by (simp add: extreme_request_def)
  have t: "or_null (body_title (title_only_body\<lparr>body_priority := Some ''extreme''\<rparr>)) = Some ''Clean fryers''"
    by (simp add: title_only_body_def or_null_def truthy_def)
  have p: "\<not> check_priority (or_default (body_priority (title_only_body\<lparr>body_priority := Some ''extreme''\<rparr>)) ''normal'')"
    by (simp add: or_default_def check_priority_def)
  have p': "\<not> check_priority (or_default (body_priority (title_only_body\<lparr>body_priority := Some ''extreme''\<rparr>)) ''normal'')
     \<or> \<not> check_status (or_default (body_status (title_only_body\<lparr>body_priority := Some ''extreme''\<rparr>)) ''todo'')"
    using p by simp
  note c = POST_invalid_enumeration[OF ex_verify(1) j t p', of example_runtime 1700000060000
      1700000060000 example_world]
  from c have s: "snd (POST example_env example_runtime 1700000060000 1700000060000 example_world extreme_request)
       = \<lparr>http_status = 500, sent = Failure ''Failed to create task''\<rparr>"
    by blast
  from c have "team_tasks (fst (POST example_env example_runtime 1700000060000 1700000060000 example_world extreme_request))
       = team_tasks example_world"
    by blast
  then have k: "team_tasks (fst (POST example_env example_runtime 1700000060000 1700000060000 example_world extreme_request))
       = [example_row]"
    by (simp add: example_world_def)
  show ?thesis using ex_verify(1) j t p s k by simp
qed

theorem POST_invalid_enumeration_counterexample:
  "json extreme_request = Some (title_only_body\<lparr>body_priority := Some ''extreme''\<rparr>)
   \<and> http_status (snd (POST example_env example_runtime 1700000060000 1700000060000 example_world extreme_request)) = 500
   \<and> pool example_world = None
   \<and> pool (fst (POST example_env example_runtime 1700000060000 1700000060000 example_world extreme_request))
       = Some ''postgres://db/board''
   \<and> json empty_priority_request = Some (title_only_body\<lparr>body_priority := Some ''''\<rparr>)
   \<and> snd (POST example_env example_runtime 1700000060000 1700000060000 example_world empty_priority_request)
       = \<lparr>http_status = 200,
          sent = TaskSaved
                   \<lparr> task_id = ''task_9'', title = ''Clean fryers'', description = None,
                     priority = ''normal'', due_date = None, assigned_to = None,
                     status = ''todo'', created_at = ''2023-11-14T22:14:20.000Z'',
                     updated_at = ''2023-11-14T22:14:20.000Z'',
                     pushed_by = ''ChiliHead System'' \<rparr>
                   ''Task pushed to team board''\<rparr>
   \<and> team_tasks (fst (POST example_env example_runtime 1700000060000 1700000060000 example_world empty_priority_request))
       = [example_row, stored_row example_runtime 1700000060000 title_only_task]"
proof -
  have x: "json extreme_request = Some (title_only_body\<lparr>body_priority := Some ''extreme''\<rparr>)
   \<and> http_status (snd (POST example_env example_runtime 1700000060000 1700000060000 example_world extreme_request)) = 500
   \<and> pool example_world = None
   \<and> pool (fst (POST example_env example_runtime 1700000060000 1700000060000 example_world extreme_request))
       = Some ''postgres://db/board''"
    by (simp add: POST_def verifyApiKey_def ex_defs extreme_request_def title_only_body_def truthy_def
      or_default_def or_null_def or_else_def addTask_def getPool_def pool_query_def insert_task_def
      insert_params_def insert_texts_def has_nul_def task_of_body_def fits_def fits_opt_def
      date_param_def check_priority_def check_status_def Let_def)
  have ac: "accepted example_runtime (task_of_body 1700000060000 ''Clean fryers''
              (title_only_body\<lparr>body_priority := Some ''''\<rparr>))"
    using ex_accepted(2) by (simp add: ex_empty_priority(3))
  have fr: "\<not> list_ex (\<lambda>x. col_id x = in_id (task_of_body 1700000060000 ''Clean fryers''
              (title_only_body\<lparr>body_priority := Some ''''\<rparr>))) (team_tasks example_world)"
    using ex_fresh(2) by (simp add: ex_empty_priority(3))
  show ?thesis
    using x POST_accepted[OF ex_verify(4) ex_empty_priority(1,2) ex_available ac fr, of 1700000060000]
    by (simp add: ex_empty_priority ex_title_only_stored example_world_def)
qed

text \<open>
  C2. After a create that succeeded, every further create that supplies the same id
  fails, at whatever time and with whatever other fields: \<^verbatim>\<open>addTask\<close> throws its one
  fixed error \<^verbatim>\<open>Failed to add task to database\<close>, the error of every failed insert,
  and the endpoint answers HTTP 500 with \<^verbatim>\<open>Failed to create task\<close>; nothing is
  overwritten: the table is as the first call left it, and \<^verbatim>\<open>getTaskById\<close> returns
  the first task before and after the second call. The counterexample that follows
  shows the error of the second call to be the one a create gives when the server does
  not answer.
\<close>

theorem addTask_duplicate_id:
  assumes "snd (addTask e rt now w t1) = Inr T1" and "w1 = fst (addTask e rt now w t1)"
      and "in_id t2 = in_id t1" and "w2 = fst (addTask e rt now2 w1 t2)"
  shows "snd (addTask e rt now2 w1 t2) = Inl FailedToAdd
       \<and> team_tasks w2 = team_tasks w1
       \<and> snd (getTaskById e rt w1 (task_id T1)) = Inr (Some T1)
       \<and> snd (getTaskById e rt w2 (task_id T1)) = Inr (Some T1)
       \<and> (verifyApiKey e req \<and> json req = Some b \<and> or_null (body_title b) = Some ttl
            \<and> in_id (task_of_body d ttl b) = in_id t1
          \<longrightarrow> snd (POST e rt d now2 w1 req)
                = \<lparr>http_status = 500, sent = Failure ''Failed to create task''\<rparr>
              \<and> team_tasks (fst (POST e rt d now2 w1 req)) = team_tasks w1)"
proof -
  from addTask_success[OF assms(1)] assms(2) obtain r where
    r: "T1 = to_task rt r" "team_tasks w1 = team_tasks w @ [r]"
       "\<not> list_ex (\<lambda>x. col_id x = col_id r) (team_tasks w)" "available e w1"
       "\<not> has_nul (col_id r)"
    by blast
  note s = addTask_same_id[OF assms(1,3), of now2, folded assms(2), folded assms(4)]
  have i: "task_id T1 = col_id r" using r(1) by (simp add: to_task_def)
  have g1: "snd (getTaskById e rt w1 (task_id T1)) = Inr (Some T1)"
    using getTaskById_last[OF r(4) r(2) r(3) r(5), of rt] r(1) i by simp
  have a2: "available e w2" using addTask_keeps_available[OF r(4)] assms(4) by simp
  have g2: "snd (getTaskById e rt w2 (task_id T1)) = Inr (Some T1)"
    using getTaskById_last[OF a2 _ r(3) r(5), of rt] s r(1,2) i by simp
  have p: "snd (POST e rt d now2 w1 req)
                = \<lparr>http_status = 500, sent = Failure ''Failed to create task''\<rparr>
              \<and> team_tasks (fst (POST e rt d now2 w1 req)) = team_tasks w1"
    if "verifyApiKey e req" "json req = Some b" "or_null (body_title b) = Some ttl"
       "in_id (task_of_body d ttl b) = in_id t1"
    using addTask_same_id[OF assms(1) that(4), of now2, folded assms(2)]
    by (simp add: POST_addTask[OF that(1,2,3)])
  show ?thesis using s g1 g2 p by blast
qed

theorem addTask_duplicate_id_witness:
  "snd (addTask example_env example_runtime 1700000060000 example_world full_task)
     = Inr (to_task example_runtime (stored_row example_runtime 1700000060000 full_task))
   \<and> in_id (title_only_task\<lparr>in_id := ''task_7''\<rparr>) = in_id full_task
   \<and> verifyApiKey example_env duplicate_request
   \<and> in_id (task_of_body 1700000120000 ''Clean fryers'' (title_only_body\<lparr>body_id := Some ''task_7''\<rparr>))
       = in_id full_task
   \<and> snd (addTask example_env example_runtime 1700000120000
            (fst (addTask example_env example_runtime 1700000060000 example_world full_task))
            (title_only_task\<lparr>in_id := ''task_7''\<rparr>)) = Inl FailedToAdd
   \<and> snd (getTaskById example_env example_runtime
            (fst (addTask example_env example_runtime 1700000120000
               (fst (addTask example_env example_runtime 1700000060000 example_world full_task))
               (title_only_task\<lparr>in_id := ''task_7''\<rparr>))) ''task_7'')
       = Inr (Some (to_task example_runtime (stored_row example_runtime 1700000060000 full_task)))
   \<and> snd (POST example_env example_runtime 1700000120000 1700000120000
            (fst (addTask example_env example_runtime 1700000060000 example_world full_task))
            duplicate_request)
       = \<lparr>http_status = 500, sent = Failure ''Failed to create task''\<rparr>"
proof -
  have i: "in_id (title_only_task\<lparr>in_id := ''task_7''\<rparr>) = in_id full_task"
    by (simp add: full_task_def)
  have j: "json duplicate_request = Some (title_only_body\<lparr>body_id := Some ''task_7''\<rparr>)"
    by (simp add: duplicate_request_def)
  have t: "or_null (body_title (title_only_body\<lparr>body_id := Some ''task_7''\<rparr>)) = Some ''Clean fryers''"
    by (simp add: title_only_body_def or_null_def truthy_def)
  have b: "in_id (task_of_body 1700000120000 ''Clean fryers'' (title_only_body\<lparr>body_id := Some ''task_7''\<rparr>))
       = in_id full_task"
    by (simp add: task_of_body_def or_default_def full_task_def)
  have k: "task_id (to_task example_runtime (stored_row example_runtime 1700000060000 full_task)) = ''task_7''"
    by (simp add: to_task_def stored_row_def full_task_def)
  show ?thesis
    using addTask_duplicate_id[OF ex_first_insert refl i refl, of 1700000120000 duplicate_request
        "title_only_body\<lparr>body_id := Some ''task_7''\<rparr>" "''Clean fryers''" 1700000120000]
      ex_first_insert i ex_verify(2) j t b k
    by simp
qed

theorem addTask_duplicate_id_counterexample:
  "snd (addTask example_env example_runtime 1700000120000
          (fst (addTask example_env example_runtime 1700000060000 example_world full_task))
          full_task) = Inl FailedToAdd
   \<and> snd (addTask example_env example_runtime 1700000120000
          (example_world\<lparr>reachable := False\<rparr>) full_task) = Inl FailedToAdd
   \<and> snd (POST example_env example_runtime 1700000120000 1700000120000
            (fst (addTask example_env example_runtime 1700000060000 example_world full_task))
            duplicate_request)
       = \<lparr>http_status = 500, sent = Failure ''Failed to create task''\<rparr>"
proof -
  have j: "json duplicate_request = Some (title_only_body\<lparr>body_id := Some ''task_7''\<rparr>)"
    by (simp add: duplicate_request_def)
  have t: "or_null (body_title (title_only_body\<lparr>body_id := Some ''task_7''\<rparr>)) = Some ''Clean fryers''"
    by (simp add: title_only_body_def or_null_def truthy_def)
  have b: "in_id (task_of_body 1700000120000 ''Clean fryers'' (title_only_body\<lparr>body_id := Some ''task_7''\<rparr>))
       = in_id full_task"
    by (simp add: task_of_body_def or_default_def full_task_def)
  have u: "snd (addTask example_env example_runtime 1700000120000
          (example_world\<lparr>reachable := False\<rparr>) full_task) = Inl FailedToAdd"
    by (simp add: addTask_def getPool_def ex_defs or_else_def truthy_def pool_query_def Let_def)
  show ?thesis
    using addTask_same_id[OF ex_first_insert refl, of 1700000120000]
      addTask_same_id[OF ex_first_insert b, of 1700000120000] u
    by (simp add: POST_addTask[OF ex_verify(2) j t])
qed

text \<open>
  C3. For every create or delete request: when a manager key is configured, the
  request passes the key check exactly when the presented key is the manager key or
  the team key (\<^verbatim>\<open>team-member-access\<close> when none is configured); when no manager key
  is configured, no request passes, whatever it presents; a request with no key header
  never passes. A request that does not pass is answered 401 and the state is left as
  it was; a request that passes is never answered 401; and a create request that passes,
  carries a title and a task the table accepts under a fresh id, on an available store,
  is answered 200 with the stored task, which is then in the table. The counterexample
  that follows presents the team key to a server without manager key, and the manager
  key with a body that has no title, which is answered 400.
\<close>

theorem api_key_gate:
  "(truthy (API_SECRET_KEY e) \<longrightarrow>
      verifyApiKey e req =
        (x_api_key req = API_SECRET_KEY e
         \<or> x_api_key req = Some (or_default (NEXT_PUBLIC_TEAM_API_KEY e) ''team-member-access'')))
   \<and> (\<not> truthy (API_SECRET_KEY e) \<longrightarrow> \<not> verifyApiKey e req)
   \<and> (x_api_key req = None \<longrightarrow> \<not> verifyApiKey e req)
   \<and> (\<not> verifyApiKey e req \<longrightarrow>
        POST e rt d now w req
          = (w, \<lparr>http_status = 401, sent = Failure ''Unauthorized - Invalid API key''\<rparr>)
        \<and> DELETE e w req
          = (w, \<lparr>http_status = 401, sent = Failure ''Unauthorized - Invalid API key''\<rparr>))
   \<and> (verifyApiKey e req \<longrightarrow>
        http_status (snd (POST e rt d now w req)) \<noteq> 401
        \<and> http_status (snd (DELETE e w req)) \<noteq> 401)
   \<and> (verifyApiKey e req \<and> json req = Some b \<and> or_null (body_title b) = Some ttl
        \<and> available e w \<and> accepted rt (task_of_body d ttl b)
        \<and> \<not> list_ex (\<lambda>x. col_id x = in_id (task_of_body d ttl b)) (team_tasks w)
      \<longrightarrow> snd (POST e rt d now w req)
            = \<lparr>http_status = 200,
               sent = TaskSaved (to_task rt (stored_row rt now (task_of_body d ttl b)))
                        ''Task pushed to team board''\<rparr>
          \<and> team_tasks (fst (POST e rt d now w req))
            = team_tasks w @ [stored_row rt now (task_of_body d ttl b)])"
proof -
  have n: "x_api_key req = None \<longrightarrow> \<not> verifyApiKey e req"
    by (auto simp: verifyApiKey_def Let_def truthy_def)
  show ?thesis
    using verifyApiKey_iff[of e req] n unauthorized(1)[of e req rt d now w]
      unauthorized(2)[of e req w] authorized(1)[of e req rt d now w] authorized(2)[of e req w]
      POST_accepted[of e req b ttl w rt d now]
    by blast
qed

theorem api_key_gate_witness:
  "truthy (API_SECRET_KEY example_env)
   \<and> verifyApiKey example_env team_request
   \<and> json team_request = Some title_only_body
   \<and> or_null (body_title title_only_body) = Some ''Clean fryers''
   \<and> available example_env example_world
   \<and> accepted example_runtime (task_of_body 1700000060000 ''Clean fryers'' title_only_body)
   \<and> \<not> list_ex (\<lambda>x. col_id x = in_id (task_of_body 1700000060000 ''Clean fryers'' title_only_body))
            (team_tasks example_world)
   \<and> snd (POST example_env example_runtime 1700000060000 1700000060000 example_world team_request)
       = \<lparr>http_status = 200,
          sent = TaskSaved
                   \<lparr> task_id = ''task_9'', title = ''Clean fryers'', description = None,
                     priority = ''normal'', due_date = None, assigned_to = None,
                     status = ''todo'', created_at = ''2023-11-14T22:14:20.000Z'',
                     updated_at = ''2023-11-14T22:14:20.000Z'',
                     pushed_by = ''ChiliHead System'' \<rparr>
                   ''Task pushed to team board''\<rparr>
   \<and> x_api_key anonymous_request = None
   \<and> \<not> verifyApiKey example_env anonymous_request
   \<and> POST example_env example_runtime 1700000060000 1700000060000 example_world anonymous_request
       = (example_world, \<lparr>http_status = 401, sent = Failure ''Unauthorized - Invalid API key''\<rparr>)
   \<and> DELETE example_env example_world anonymous_request
       = (example_world, \<lparr>http_status = 401, sent = Failure ''Unauthorized - Invalid API key''\<rparr>)
   \<and> \<not> truthy (API_SECRET_KEY (example_env\<lparr>API_SECRET_KEY := None\<rparr>))
   \<and> \<not> verifyApiKey (example_env\<lparr>API_SECRET_KEY := None\<rparr>) team_request"
proof -
  have m: "truthy (API_SECRET_KEY example_env)"
          "\<not> truthy (API_SECRET_KEY (example_env\<lparr>API_SECRET_KEY := None\<rparr>))"
    by (simp_all add: example_env_def truthy_def)
  have a: "x_api_key anonymous_request = None" by (simp add: anonymous_request_def)
  note t1 = api_key_gate[of example_env team_request example_runtime 1700000060000 1700000060000
          example_world title_only_body "''Clean fryers''"]
  note t2 = api_key_gate[of example_env anonymous_request example_runtime 1700000060000 1700000060000
          example_world title_only_body "''Clean fryers''"]
  note t3 = api_key_gate[of "example_env\<lparr>API_SECRET_KEY := None\<rparr>" team_request example_runtime
          1700000060000 1700000060000 example_world title_only_body "''Clean fryers''"]
  have ac: "accepted example_runtime (task_of_body 1700000060000 ''Clean fryers'' title_only_body)"
    using ex_accepted(2) by (simp add: ex_team_body(3))
  have fr: "\<not> list_ex (\<lambda>x. col_id x = in_id (task_of_body 1700000060000 ''Clean fryers'' title_only_body))
            (team_tasks example_world)"
    using ex_fresh(2) by (simp add: ex_team_body(3))
  from t1 ex_verify(3) ex_team_body(1,2) ex_available ac fr
  have ok: "snd (POST example_env example_runtime 1700000060000 1700000060000 example_world team_request)
       = \<lparr>http_status = 200,
          sent = TaskSaved (to_task example_runtime (stored_row example_runtime 1700000060000
                   (task_of_body 1700000060000 ''Clean fryers'' title_only_body)))
                   ''Task pushed to team board''\<rparr>"
    by blast
  from t2 a have na: "\<not> verifyApiKey example_env anonymous_request" by blast
  from t2 na have u:
    "POST example_env example_runtime 1700000060000 1700000060000 example_world anonymous_request
       = (example_world, \<lparr>http_status = 401, sent = Failure ''Unauthorized - Invalid API key''\<rparr>)"
    "DELETE example_env example_world anonymous_request
       = (example_world, \<lparr>http_status = 401, sent = Failure ''Unauthorized - Invalid API key''\<rparr>)"
    by blast+
  from t3 m(2) have nm: "\<not> verifyApiKey (example_env\<lparr>API_SECRET_KEY := None\<rparr>) team_request"
    by blast
  show ?thesis
    using m ex_verify(3) ex_team_body(1,2) ex_available ac fr ok a na u nm
    by (simp add: ex_title_only_stored ex_team_body(3))
qed

theorem api_key_gate_counterexample:
  "x_api_key team_request
     = Some (or_default (NEXT_PUBLIC_TEAM_API_KEY (example_env\<lparr>API_SECRET_KEY := None\<rparr>))
               ''team-member-access'')
   \<and> POST (example_env\<lparr>API_SECRET_KEY := None\<rparr>) example_runtime 1700000060000 1700000060000
         example_world team_request
       = (example_world, \<lparr>http_status = 401, sent = Failure ''Unauthorized - Invalid API key''\<rparr>)
   \<and> DELETE (example_env\<lparr>API_SECRET_KEY := None\<rparr>) example_world
         (team_request\<lparr>param_id := Some ''task_sample_1''\<rparr>)
       = (example_world, \<lparr>http_status = 401, sent = Failure ''Unauthorized - Invalid API key''\<rparr>)
   \<and> x_api_key untitled_request = API_SECRET_KEY example_env
   \<and> POST example_env example_runtime 1700000060000 1700000060000 example_world untitled_request
       = (example_world, \<lparr>http_status = 400, sent = Failure ''Title is required''\<rparr>)"
  by (simp add: POST_def DELETE_def verifyApiKey_def example_env_def team_request_def
      untitled_request_def title_only_body_def or_default_def or_null_def truthy_def Let_def)

text \<open>
  C4. For every task the table takes as it is (\<open>accepted\<close>: no text value holds
  U+0000, every value is within its column, priority and status are of the
  enumerations, and the due date, when given, is one that \<^verbatim>\<open>new Date\<close> reads and
  that a \<^verbatim>\<open>TIMESTAMP\<close> can hold) under an id not yet in the table, on an available
  store, \<^verbatim>\<open>addTask\<close> followed by \<^verbatim>\<open>getTaskById\<close> of that id returns a record
  with the supplied \<open>id\<close>, \<open>title\<close>, \<open>priority\<close>, \<open>status\<close> and \<open>pushed_by\<close>; with
  the supplied \<open>description\<close> and \<open>assigned_to\<close>, except that an empty string comes
  back as \<^verbatim>\<open>null\<close>; with, as \<open>due_date\<close>, the ISO rendering of the date that the
  driver reads back from the wall-clock time stored for the date read from the
  supplied string (none when the string is missing or empty), which is the ISO
  rendering of the supplied date itself wherever reading back undoes the writing, as
  in a process whose time zone is UTC; and with \<open>created_at\<close> equal to \<open>updated_at\<close>,
  both the time of the insert. The counterexample that follows is a task whose
  description is the empty string, a task whose due date \<open>2025-01-01\<close> comes back as
  \<open>2025-01-01T00:00:00.000Z\<close>, and four tasks that the server refuses: after the
  first three \<^verbatim>\<open>getTaskById\<close> returns \<^verbatim>\<open>null\<close>, and after the fourth, whose
  id is taken, the task that had the id.
\<close>

theorem addTask_then_getTaskById:
  assumes "available e w" and "accepted rt t"
      and "\<not> list_ex (\<lambda>x. col_id x = in_id t) (team_tasks w)"
  shows "snd (getTaskById e rt (fst (addTask e rt now w t)) (in_id t))
           = Inr (Some \<lparr> task_id = in_id t,
                         title = in_title t,
                         description = or_null (in_description t),
                         priority = in_priority t,
                         due_date = (case or_null (in_due_date t) of None \<Rightarrow> None
                                     | Some s \<Rightarrow>
                                         map_option
                                           (\<lambda>d. toISOString rt (from_wall_clock rt (wall_clock rt d)))
                                           (new_Date rt s)),
                         assigned_to = or_null (in_assigned_to t),
                         status = in_status t,
                         created_at = toISOString rt (from_wall_clock rt now),
                         updated_at = toISOString rt (from_wall_clock rt now),
                         pushed_by = in_pushed_by t \<rparr>)
       \<and> ((\<forall>d. from_wall_clock rt (wall_clock rt d) = d) \<longrightarrow>
            (case snd (getTaskById e rt (fst (addTask e rt now w t)) (in_id t)) of
               Inr (Some T) \<Rightarrow>
                 due_date T = (case or_null (in_due_date t) of None \<Rightarrow> None
                               | Some s \<Rightarrow> map_option (toISOString rt) (new_Date rt s))
             | _ \<Rightarrow> False))"
  using addTask_then_getTaskById_row[OF assms, of now]
  by (simp add: to_task_def stored_row_def due_date_rendering row_date_def split: option.splits)

theorem addTask_then_getTaskById_witness:
  "available example_env example_world \<and> accepted example_runtime full_task
   \<and> \<not> list_ex (\<lambda>x. col_id x = in_id full_task) (team_tasks example_world)
   \<and> snd (getTaskById example_env example_runtime
            (fst (addTask example_env example_runtime 1700000060000 example_world full_task))
            ''task_7'')
       = Inr (Some \<lparr> task_id = ''task_7'', title = ''Order limes'',
                     description = Some ''Two cases for the weekend'', priority = ''urgent'',
                     due_date = Some ''2025-01-01T00:00:00.000Z'', assigned_to = Some ''Dana'',
                     status = ''in_progress'', created_at = ''2023-11-14T22:14:20.000Z'',
                     updated_at = ''2023-11-14T22:14:20.000Z'', pushed_by = ''Manager'' \<rparr>)"
proof -
  note c = addTask_then_getTaskById[OF ex_available ex_accepted(1) ex_fresh(1), of 1700000060000]
  from c have "snd (getTaskById example_env example_runtime
            (fst (addTask example_env example_runtime 1700000060000 example_world full_task))
            (in_id full_task))
       = Inr (Some \<lparr> task_id = ''task_7'', title = ''Order limes'',
                     description = Some ''Two cases for the weekend'', priority = ''urgent'',
                     due_date = Some ''2025-01-01T00:00:00.000Z'', assigned_to = Some ''Dana'',
                     status = ''in_progress'', created_at = ''2023-11-14T22:14:20.000Z'',
                     updated_at = ''2023-11-14T22:14:20.000Z'', pushed_by = ''Manager'' \<rparr>)"
    by (simp add: full_task_def or_null_def truthy_def example_runtime_def)
  then show ?thesis
    using ex_available ex_accepted(1) ex_fresh(1) by (simp add: full_task_def)
qed

theorem addTask_then_getTaskById_counterexample:
  "in_description title_only_task = Some ''''
   \<and> snd (getTaskById example_env example_runtime
            (fst (addTask example_env example_runtime 1700000060000 example_world title_only_task))
            ''task_9'')
       = Inr (Some \<lparr> task_id = ''task_9'', title = ''Clean fryers'',
                     description = None, priority = ''normal'',
                     due_date = None, assigned_to = None,
                     status = ''todo'', created_at = ''2023-11-14T22:14:20.000Z'',
                     updated_at = ''2023-11-14T22:14:20.000Z'', pushed_by = ''ChiliHead System'' \<rparr>)
   \<and> in_due_date full_task = Some ''2025-01-01''
   \<and> snd (getTaskById example_env example_runtime
            (fst (addTask example_env example_runtime 1700000060000 example_world full_task))
            ''task_7'')
       = Inr (Some \<lparr> task_id = ''task_7'', title = ''Order limes'',
                     description = Some ''Two cases for the weekend'', priority = ''urgent'',
                     due_date = Some ''2025-01-01T00:00:00.000Z'', assigned_to = Some ''Dana'',
                     status = ''in_progress'', created_at = ''2023-11-14T22:14:20.000Z'',
                     updated_at = ''2023-11-14T22:14:20.000Z'', pushed_by = ''Manager'' \<rparr>)
   \<and> snd (addTask example_env example_runtime 1700000060000 example_world nul_title_task)
       = Inl FailedToAdd
   \<and> snd (getTaskById example_env example_runtime
            (fst (addTask example_env example_runtime 1700000060000 example_world nul_title_task))
            ''task_9'') = Inr None
   \<and> snd (addTask example_env example_runtime 1700000060000 example_world ancient_task)
       = Inl FailedToAdd
   \<and> snd (getTaskById example_env example_runtime
            (fst (addTask example_env example_runtime 1700000060000 example_world ancient_task))
            ''task_9'') = Inr None
   \<and> length (in_title long_title_task) = 501
   \<and> snd (addTask example_env example_runtime 1700000060000 example_world long_title_task)
       = Inl FailedToAdd
   \<and> snd (getTaskById example_env example_runtime
            (fst (addTask example_env example_runtime 1700000060000 example_world long_title_task))
            ''task_9'') = Inr None
   \<and> snd (addTask example_env example_runtime 1700000060000 example_world taken_id_task)
       = Inl FailedToAdd
   \<and> snd (getTaskById example_env example_runtime
            (fst (addTask example_env example_runtime 1700000060000 example_world taken_id_task))
            ''task_sample_1'') = Inr (Some (to_task example_runtime example_row))
   \<and> title (to_task example_runtime example_row) = ''Complete inventory count''
   \<and> in_title taken_id_task = ''Clean fryers''"
proof -
  have 1: "snd (getTaskById example_env example_runtime
            (fst (addTask example_env example_runtime 1700000060000 example_world title_only_task))
            ''task_9'')
       = Inr (Some \<lparr> task_id = ''task_9'', title = ''Clean fryers'',
                     description = None, priority = ''normal'',
                     due_date = None, assigned_to = None,
                     status = ''todo'', created_at = ''2023-11-14T22:14:20.000Z'',
                     updated_at = ''2023-11-14T22:14:20.000Z'', pushed_by = ''ChiliHead System'' \<rparr>)"
    using addTask_then_getTaskById_row[OF ex_available ex_accepted(2) ex_fresh(2), of 1700000060000]
    by (simp add: ex_title_only_stored) (simp add: title_only_task_def)
  have 2: "snd (getTaskById example_env example_runtime
            (fst (addTask example_env example_runtime 1700000060000 example_world full_task))
            ''task_7'')
       = Inr (Some \<lparr> task_id = ''task_7'', title = ''Order limes'',
                     description = Some ''Two cases for the weekend'', priority = ''urgent'',
                     due_date = Some ''2025-01-01T00:00:00.000Z'', assigned_to = Some ''Dana'',
                     status = ''in_progress'', created_at = ''2023-11-14T22:14:20.000Z'',
                     updated_at = ''2023-11-14T22:14:20.000Z'', pushed_by = ''Manager'' \<rparr>)"
    using addTask_then_getTaskById_row[OF ex_available ex_accepted(1) ex_fresh(1), of 1700000060000]
    by (simp add: to_task_def row_date_def stored_row_def full_task_def or_null_def truthy_def
        date_param_def example_runtime_def)
  have 3: "addTask example_env example_runtime 1700000060000 example_world nul_title_task
             = (example_world\<lparr>pool := Some ''postgres://db/board''\<rparr>, Inl FailedToAdd)"
    by (simp add: addTask_def getPool_def pool_query_def insert_texts_def insert_params_def
        nul_title_task_def title_only_task_def has_nul_def ex_defs or_else_def or_null_def
        truthy_def Let_def)
  have 4: "addTask example_env example_runtime 1700000060000 example_world ancient_task
             = (example_world\<lparr>pool := Some ''postgres://db/board''\<rparr>, Inl FailedToAdd)"
    by (simp add: addTask_def getPool_def pool_query_def insert_texts_def insert_params_def
        insert_task_def fits_def fits_opt_def date_param_def in_range_def timestamp_min_def
        ancient_task_def title_only_task_def has_nul_def ex_defs or_else_def or_null_def
        truthy_def Let_def)
  have 5: "snd (getTaskById example_env example_runtime
             (example_world\<lparr>pool := Some ''postgres://db/board''\<rparr>) ''task_9'') = Inr None"
    by (simp add: getTaskById_def getPool_def pool_query_def select_by_id_def has_nul_def ex_defs)
  have 6: "addTask example_env example_runtime 1700000060000 example_world long_title_task
             = (example_world\<lparr>pool := Some ''postgres://db/board''\<rparr>, Inl FailedToAdd)"
    by (simp add: addTask_def getPool_def pool_query_def insert_texts_def insert_params_def
        insert_task_def fits_def long_title_task_def title_only_task_def has_nul_def ex_defs
        or_else_def or_null_def truthy_def Let_def)
  have 7: "addTask example_env example_runtime 1700000060000 example_world taken_id_task
             = (example_world\<lparr>pool := Some ''postgres://db/board''\<rparr>, Inl FailedToAdd)"
    by (simp add: addTask_def getPool_def pool_query_def insert_texts_def insert_params_def
        insert_task_def fits_def fits_opt_def date_param_def check_priority_def check_status_def
        taken_id_task_def title_only_task_def has_nul_def ex_defs
        or_else_def or_null_def truthy_def Let_def)
  have 8: "snd (getTaskById example_env example_runtime
             (example_world\<lparr>pool := Some ''postgres://db/board''\<rparr>) ''task_sample_1'')
           = Inr (Some (to_task example_runtime example_row))"
    by (simp add: getTaskById_def getPool_def pool_query_def select_by_id_def has_nul_def
        example_world_def)
       (simp add: example_row_def)
  have 9: "title (to_task example_runtime example_row) = ''Complete inventory count''"
          "in_title taken_id_task = ''Clean fryers''"
          "length (in_title long_title_task) = 501"
    by (simp_all add: to_task_def example_row_def taken_id_task_def title_only_task_def
        long_title_task_def)
  show ?thesis
    using 1 2 9 by (simp add: 3 4 5 6 7 8) (simp add: title_only_task_def full_task_def)
qed

text \<open>
  C5. For a stored task and the update \<^verbatim>\<open>{status: s}\<close> with \<open>s\<close> of the enumeration, on
  an available store: \<^verbatim>\<open>updateTask\<close> returns the task with \<open>status\<close> and
  \<open>updated_at\<close> replaced and every other field as it was; the stored row changes in
  the columns \<open>status\<close> and \<open>updated_at\<close> only and no other row changes; the new
  \<open>updated_at\<close> is the current time of the server, so it is strictly greater than
  the prior value exactly when the clock has passed that value. The counterexample
  that follows is an update at the very time of the prior stamp, which leaves
  \<open>updated_at\<close> as it was, and an update to the status \<open>done\<close>, which fails.
\<close>

theorem updateTask_status_only:
  assumes "available e w" and "constraints_hold (team_tasks w)" and "r \<in> set (team_tasks w)"
      and "check_status s"
  shows "snd (updateTask e rt now w (col_id r) (status_only s))
           = Inr (Some ((to_task rt r)\<lparr>status := s,
                                       updated_at := toISOString rt (from_wall_clock rt now)\<rparr>))
       \<and> team_tasks (fst (updateTask e rt now w (col_id r) (status_only s)))
           = map (\<lambda>x. if col_id x = col_id r then r\<lparr>col_status := s, col_updated_at := now\<rparr> else x)
               (team_tasks w)
       \<and> map col_updated_at
            (filter (\<lambda>x. col_id x = col_id r)
               (team_tasks (fst (updateTask e rt now w (col_id r) (status_only s))))) = [now]
       \<and> list_all (\<lambda>x. col_updated_at r < col_updated_at x)
            (filter (\<lambda>x. col_id x = col_id r)
               (team_tasks (fst (updateTask e rt now w (col_id r) (status_only s)))))
           = (col_updated_at r < now)"
proof -
  note u = updateTask_status_row[OF assms, of rt now]
  from u have 1: "snd (updateTask e rt now w (col_id r) (status_only s))
           = Inr (Some ((to_task rt r)\<lparr>status := s,
                                       updated_at := toISOString rt (from_wall_clock rt now)\<rparr>))"
    by (simp add: row_date_def)
  from u have 2: "team_tasks (fst (updateTask e rt now w (col_id r) (status_only s)))
           = map (\<lambda>x. if col_id x = col_id r then r\<lparr>col_status := s, col_updated_at := now\<rparr> else x)
               (team_tasks w)"
    by blast
  from u have 3: "filter (\<lambda>x. col_id x = col_id r)
            (team_tasks (fst (updateTask e rt now w (col_id r) (status_only s))))
           = [r\<lparr>col_status := s, col_updated_at := now\<rparr>]"
    by blast
  have 4: "map col_updated_at
            (filter (\<lambda>x. col_id x = col_id r)
               (team_tasks (fst (updateTask e rt now w (col_id r) (status_only s))))) = [now]"
    unfolding 3 by simp
  have 5: "list_all (\<lambda>x. col_updated_at r < col_updated_at x)
            (filter (\<lambda>x. col_id x = col_id r)
               (team_tasks (fst (updateTask e rt now w (col_id r) (status_only s)))))
           = (col_updated_at r < now)"
    unfolding 3 by simp
  from 1 2 4 5 show ?thesis by blast
qed

theorem updateTask_status_only_witness:
  "available example_env example_world \<and> constraints_hold (team_tasks example_world)
   \<and> example_row \<in> set (team_tasks example_world) \<and> check_status ''completed''
   \<and> col_updated_at example_row < 1700000060000
   \<and> snd (updateTask example_env example_runtime 1700000060000 example_world ''task_sample_1''
            (status_only ''completed''))
       = Inr (Some \<lparr> task_id = ''task_sample_1'', title = ''Complete inventory count'',
                     description = Some ''Check all dry storage and walk-in coolers'',
                     priority = ''high'', due_date = None, assigned_to = None,
                     status = ''completed'', created_at = ''2023-11-14T22:13:20.000Z'',
                     updated_at = ''2023-11-14T22:14:20.000Z'',
                     pushed_by = ''ChiliHead System'' \<rparr>)
   \<and> team_tasks (fst (updateTask example_env example_runtime 1700000060000 example_world
            ''task_sample_1'' (status_only ''completed'')))
       = [example_row\<lparr>col_status := ''completed'', col_updated_at := 1700000060000\<rparr>]
   \<and> list_all (\<lambda>x. col_updated_at example_row < col_updated_at x)
        (filter (\<lambda>x. col_id x = ''task_sample_1'')
           (team_tasks (fst (updateTask example_env example_runtime 1700000060000 example_world
              ''task_sample_1'' (status_only ''completed'')))))"
proof -
  have c: "check_status ''completed''" by (simp add: check_status_def)
  have u: "col_updated_at example_row < 1700000060000" by (simp add: example_row_def)
  have i: "col_id example_row = ''task_sample_1''" by (simp add: example_row_def)
  have t: "team_tasks example_world = [example_row]" by (simp add: example_world_def)
  note k = updateTask_status_only[OF ex_available ex_constraints ex_member c,
      of example_runtime 1700000060000, unfolded i]
  from k have 1: "snd (updateTask example_env example_runtime 1700000060000 example_world ''task_sample_1''
            (status_only ''completed''))
       = Inr (Some ((to_task example_runtime example_row)\<lparr>status := ''completed'',
            updated_at := toISOString example_runtime (from_wall_clock example_runtime 1700000060000)\<rparr>))"
    by blast
  from k have 2: "team_tasks (fst (updateTask example_env example_runtime 1700000060000 example_world
            ''task_sample_1'' (status_only ''completed'')))
       = map (\<lambda>x. if col_id x = ''task_sample_1''
                  then example_row\<lparr>col_status := ''completed'', col_updated_at := 1700000060000\<rparr>
                  else x) (team_tasks example_world)"
    by blast
  from k have 3: "list_all (\<lambda>x. col_updated_at example_row < col_updated_at x)
        (filter (\<lambda>x. col_id x = ''task_sample_1'')
           (team_tasks (fst (updateTask example_env example_runtime 1700000060000 example_world
              ''task_sample_1'' (status_only ''completed'')))))
       = (col_updated_at example_row < 1700000060000)"
    by blast
  have 4: "(to_task example_runtime example_row)\<lparr>status := ''completed'',
            updated_at := toISOString example_runtime (from_wall_clock example_runtime 1700000060000)\<rparr>
         = \<lparr> task_id = ''task_sample_1'', title = ''Complete inventory count'',
                     description = Some ''Check all dry storage and walk-in coolers'',
                     priority = ''high'', due_date = None, assigned_to = None,
                     status = ''completed'', created_at = ''2023-11-14T22:13:20.000Z'',
                     updated_at = ''2023-11-14T22:14:20.000Z'',
                     pushed_by = ''ChiliHead System'' \<rparr>"
    by (simp add: to_task_def row_date_def example_row_def example_runtime_def)
  have 5: "team_tasks (fst (updateTask example_env example_runtime 1700000060000 example_world
            ''task_sample_1'' (status_only ''completed'')))
       = [example_row\<lparr>col_status := ''completed'', col_updated_at := 1700000060000\<rparr>]"
    unfolding 2 t by (simp add: i)
  show ?thesis
    using ex_available ex_constraints ex_member c u 1 3 5 by (simp add: 4)
qed

theorem updateTask_status_only_counterexample:
  "col_updated_at example_row = 1700000000000
   \<and> updated_at (to_task example_runtime example_row) = ''2023-11-14T22:13:20.000Z''
   \<and> snd (updateTask example_env example_runtime 1700000000000 example_world ''task_sample_1''
            (status_only ''completed''))
       = Inr (Some \<lparr> task_id = ''task_sample_1'', title = ''Complete inventory count'',
                     description = Some ''Check all dry storage and walk-in coolers'',
                     priority = ''high'', due_date = None, assigned_to = None,
                     status = ''completed'', created_at = ''2023-11-14T22:13:20.000Z'',
                     updated_at = ''2023-11-14T22:13:20.000Z'',
                     pushed_by = ''ChiliHead System'' \<rparr>)
   \<and> map col_updated_at
        (team_tasks (fst (updateTask example_env example_runtime 1700000000000 example_world
            ''task_sample_1'' (status_only ''completed'')))) = [1700000000000]
   \<and> \<not> check_status ''done''
   \<and> updateTask example_env example_runtime 1700000060000 example_world ''task_sample_1''
        (status_only ''done'')
       = (example_world\<lparr>pool := Some ''postgres://db/board''\<rparr>, Inl FailedToUpdate)"
proof -
  have c: "check_status ''completed''" by (simp add: check_status_def)
  have i: "col_id example_row = ''task_sample_1''" by (simp add: example_row_def)
  have t: "team_tasks example_world = [example_row]" by (simp add: example_world_def)
  note k = updateTask_status_row[OF ex_available ex_constraints ex_member c,
      of example_runtime 1700000000000, unfolded i]
  from k have 1: "snd (updateTask example_env example_runtime 1700000000000 example_world ''task_sample_1''
            (status_only ''completed''))
       = Inr (Some ((to_task example_runtime example_row)\<lparr>status := ''completed'',
            updated_at := row_date example_runtime 1700000000000\<rparr>))"
    by blast
  from k have 2: "team_tasks (fst (updateTask example_env example_runtime 1700000000000 example_world
            ''task_sample_1'' (status_only ''completed'')))
       = map (\<lambda>x. if col_id x = ''task_sample_1''
                  then example_row\<lparr>col_status := ''completed'', col_updated_at := 1700000000000\<rparr>
                  else x) (team_tasks example_world)"
    by blast
  have 4: "(to_task example_runtime example_row)\<lparr>status := ''completed'',
            updated_at := row_date example_runtime 1700000000000\<rparr>
         = \<lparr> task_id = ''task_sample_1'', title = ''Complete inventory count'',
                     description = Some ''Check all dry storage and walk-in coolers'',
                     priority = ''high'', due_date = None, assigned_to = None,
                     status = ''completed'', created_at = ''2023-11-14T22:13:20.000Z'',
                     updated_at = ''2023-11-14T22:13:20.000Z'',
                     pushed_by = ''ChiliHead System'' \<rparr>"
    by (simp add: to_task_def row_date_def example_row_def example_runtime_def)
  have 5: "map col_updated_at
        (team_tasks (fst (updateTask example_env example_runtime 1700000000000 example_world
            ''task_sample_1'' (status_only ''completed'')))) = [1700000000000]"
    unfolding 2 t by (simp add: i)
  have 6: "updateTask example_env example_runtime 1700000060000 example_world ''task_sample_1''
        (status_only ''done'')
       = (example_world\<lparr>pool := Some ''postgres://db/board''\<rparr>, Inl FailedToUpdate)"
    by (simp add: updateTask_def getPool_def pool_query_def update_task_def build_fields_def
        status_only_def no_updates_def new_row_def fits_def check_status_def check_priority_def
        List.map_filter_simps has_nul_def ex_defs or_else_def truthy_def Let_def)
  show ?thesis
    using 1 5 6 by (simp add: 4) (simp add: example_row_def to_task_def row_date_def
        example_runtime_def check_status_def)
qed



text \<open>
  C7. On an available store, for every table and every filter that does not hold
  U+0000: \<^verbatim>\<open>getTasks\<close> returns the tasks whose status equals the filter when the
  filter is a non-empty string, and all tasks when no filter or the empty string is
  given; each selected row once, ordered by \<open>created_at\<close> descending; when no row is
  selected the result is the empty list and no error; and the read endpoint answers
  200 with that list and, as \<open>count\<close>, its length. A non-empty filter that holds
  U+0000 is refused by the server: \<^verbatim>\<open>getTasks\<close> throws and the read endpoint
  answers 500. The counterexample that follows is the empty string as filter, which
  returns a task whose status is \<open>todo\<close>, and the filter made of U+0000 alone.
\<close>

theorem getTasks_filtered_newest_first:
  assumes "available e w"
  shows "((case or_null st of None \<Rightarrow> True | Some s \<Rightarrow> \<not> has_nul s) \<longrightarrow>
          (\<exists>rows.
             snd (getTasks e rt w st) = Inr (map (to_task rt) rows)
           \<and> mset rows = mset (case or_null st of None \<Rightarrow> team_tasks w
                                 | Some s \<Rightarrow> filter (\<lambda>r. col_status r = s) (team_tasks w))
           \<and> sorted_wrt (\<lambda>a b. col_created_at b \<le> col_created_at a) rows
           \<and> (param_status req = st \<longrightarrow>
                snd (GET e rt w req)
                  = \<lparr>http_status = 200,
                     sent = TaskList (map (to_task rt) rows) (length (map (to_task rt) rows))\<rparr>))
         \<and> ((case or_null st of None \<Rightarrow> team_tasks w
              | Some s \<Rightarrow> filter (\<lambda>r. col_status r = s) (team_tasks w)) = []
            \<longrightarrow> snd (getTasks e rt w st) = Inr []))
       \<and> ((case or_null st of None \<Rightarrow> False | Some s \<Rightarrow> has_nul s) \<longrightarrow>
            snd (getTasks e rt w st) = Inl (FailedToFetchTasks (Pg CharacterNotInRepertoire))
          \<and> (param_status req = st \<longrightarrow>
               snd (GET e rt w req)
                 = \<lparr>http_status = 500, sent = Failure ''Failed to fetch tasks''\<rparr>))"
proof -
  let ?rows = "sort_key (\<lambda>r. - col_created_at r)
                 (case or_null st of None \<Rightarrow> team_tasks w
                  | Some s \<Rightarrow> filter (\<lambda>r. col_status r = s) (team_tasks w))"
  have A: "(\<exists>rows.
             snd (getTasks e rt w st) = Inr (map (to_task rt) rows)
           \<and> mset rows = mset (case or_null st of None \<Rightarrow> team_tasks w
                                 | Some s \<Rightarrow> filter (\<lambda>r. col_status r = s) (team_tasks w))
           \<and> sorted_wrt (\<lambda>a b. col_created_at b \<le> col_created_at a) rows
           \<and> (param_status req = st \<longrightarrow>
                snd (GET e rt w req)
                  = \<lparr>http_status = 200,
                     sent = TaskList (map (to_task rt) rows) (length (map (to_task rt) rows))\<rparr>))
         \<and> ((case or_null st of None \<Rightarrow> team_tasks w
              | Some s \<Rightarrow> filter (\<lambda>r. col_status r = s) (team_tasks w)) = []
            \<longrightarrow> snd (getTasks e rt w st) = Inr [])"
    if h: "case or_null st of None \<Rightarrow> True | Some s \<Rightarrow> \<not> has_nul s"
  proof -
    note a = getTasks_available[OF assms h, of rt]
    have 1: "snd (getTasks e rt w st) = Inr (map (to_task rt) ?rows)" using a by simp
    have 2: "mset ?rows = mset (case or_null st of None \<Rightarrow> team_tasks w
                                 | Some s \<Rightarrow> filter (\<lambda>r. col_status r = s) (team_tasks w))"
      by simp
    have 3: "sorted_wrt (\<lambda>a b. col_created_at b \<le> col_created_at a) ?rows"
      by (rule sorted_desc_sort_key)
    have 4: "param_status req = st \<longrightarrow>
                snd (GET e rt w req)
                  = \<lparr>http_status = 200,
                     sent = TaskList (map (to_task rt) ?rows) (length (map (to_task rt) ?rows))\<rparr>"
      using a by (auto simp: GET_getTasks)
    have 5: "(case or_null st of None \<Rightarrow> team_tasks w
              | Some s \<Rightarrow> filter (\<lambda>r. col_status r = s) (team_tasks w)) = []
            \<longrightarrow> snd (getTasks e rt w st) = Inr []"
      using 1 by auto
    from 1 2 3 4 5 show ?thesis by blast
  qed
  have B: "snd (getTasks e rt w st) = Inl (FailedToFetchTasks (Pg CharacterNotInRepertoire))
          \<and> (param_status req = st \<longrightarrow>
               snd (GET e rt w req)
                 = \<lparr>http_status = 500, sent = Failure ''Failed to fetch tasks''\<rparr>)"
    if h: "case or_null st of None \<Rightarrow> False | Some s \<Rightarrow> has_nul s"
  proof -
    from h obtain s where s: "or_null st = Some s" "has_nul s" by (auto split: option.splits)
    from getTasks_refused[OF assms s, of rt] show ?thesis by (auto simp: GET_getTasks)
  qed
  from A B show ?thesis by blast
qed

theorem getTasks_filtered_newest_first_witness:
  "available example_env (example_world\<lparr>team_tasks := list_table\<rparr>)
   \<and> \<not> has_nul ''completed''
   \<and> snd (getTasks example_env example_runtime (example_world\<lparr>team_tasks := list_table\<rparr>)
         (Some ''completed''))
       = Inr [ to_task example_runtime (list_table ! 2), to_task example_runtime (list_table ! 0) ]
   \<and> map task_id [ to_task example_runtime (list_table ! 2),
                     to_task example_runtime (list_table ! 0) ] = [ ''task_c'', ''task_b'' ]
   \<and> map created_at [ to_task example_runtime (list_table ! 2),
                        to_task example_runtime (list_table ! 0) ]
       = [ ''2025-01-01T00:00:00.000Z'', ''2023-11-14T22:14:20.000Z'' ]
   \<and> snd (GET example_env example_runtime (example_world\<lparr>team_tasks := list_table\<rparr>)
         (anonymous_request\<lparr>param_status := Some ''completed''\<rparr>))
       = \<lparr>http_status = 200,
          sent = TaskList [ to_task example_runtime (list_table ! 2),
                            to_task example_runtime (list_table ! 0) ] 2\<rparr>
   \<and> snd (getTasks example_env example_runtime (example_world\<lparr>team_tasks := list_table\<rparr>)
         (Some ''in_progress'')) = Inr []
   \<and> has_nul [CHR 0x00]
   \<and> snd (GET example_env example_runtime (example_world\<lparr>team_tasks := list_table\<rparr>)
         (anonymous_request\<lparr>param_status := Some [CHR 0x00]\<rparr>))
       = \<lparr>http_status = 500, sent = Failure ''Failed to fetch tasks''\<rparr>"
proof -
  let ?w = "example_world\<lparr>team_tasks := list_table\<rparr>"
  let ?req = "anonymous_request\<lparr>param_status := Some ''completed''\<rparr>"
  let ?bad = "anonymous_request\<lparr>param_status := Some [CHR 0x00]\<rparr>"
  have n: "\<not> has_nul ''completed''" "\<not> has_nul ''in_progress''" "has_nul [CHR 0x00]"
    by (simp_all add: has_nul_def)
  have h: "case or_null (Some ''completed'') of None \<Rightarrow> True | Some s \<Rightarrow> \<not> has_nul s"
          "case or_null (Some ''in_progress'') of None \<Rightarrow> True | Some s \<Rightarrow> \<not> has_nul s"
          "case or_null (Some [CHR 0x00]) of None \<Rightarrow> False | Some s \<Rightarrow> has_nul s"
    using n by (simp_all add: or_null_def truthy_def)
  note t1 = getTasks_filtered_newest_first[OF ex_list_available, of "Some ''completed''"
      example_runtime ?req]
  note t2 = getTasks_filtered_newest_first[OF ex_list_available, of "Some ''in_progress''"
      example_runtime ?req]
  note t3 = getTasks_filtered_newest_first[OF ex_list_available, of "Some [CHR 0x00]"
      example_runtime ?bad]
  from t1 h(1) obtain rows where
    r: "snd (getTasks example_env example_runtime ?w (Some ''completed''))
          = Inr (map (to_task example_runtime) rows)"
       "param_status ?req = Some ''completed'' \<longrightarrow>
          snd (GET example_env example_runtime ?w ?req)
            = \<lparr>http_status = 200,
               sent = TaskList (map (to_task example_runtime) rows)
                        (length (map (to_task example_runtime) rows))\<rparr>"
    by blast
  from r(1) ex_list_completed have m: "map (to_task example_runtime) rows
     = [ to_task example_runtime (list_table ! 2), to_task example_runtime (list_table ! 0) ]"
    by simp
  have g: "snd (GET example_env example_runtime ?w ?req)
       = \<lparr>http_status = 200,
          sent = TaskList [ to_task example_runtime (list_table ! 2),
                            to_task example_runtime (list_table ! 0) ] 2\<rparr>"
    using r(2) unfolding m by simp
  from t2 h(2) have "(case or_null (Some ''in_progress'') of None \<Rightarrow> team_tasks ?w
              | Some s \<Rightarrow> filter (\<lambda>r. col_status r = s) (team_tasks ?w)) = []
            \<longrightarrow> snd (getTasks example_env example_runtime ?w (Some ''in_progress'')) = Inr []"
    by blast
  then have e: "snd (getTasks example_env example_runtime ?w (Some ''in_progress'')) = Inr []"
    by (simp add: or_null_def truthy_def list_table_def example_row_def)
  from t3 h(3) have "param_status ?bad = Some [CHR 0x00] \<longrightarrow>
          snd (GET example_env example_runtime ?w ?bad)
            = \<lparr>http_status = 500, sent = Failure ''Failed to fetch tasks''\<rparr>"
    by blast
  then have b: "snd (GET example_env example_runtime ?w ?bad)
            = \<lparr>http_status = 500, sent = Failure ''Failed to fetch tasks''\<rparr>"
    by simp
  have c: "map created_at [ to_task example_runtime (list_table ! 2),
                            to_task example_runtime (list_table ! 0) ]
       = [ ''2025-01-01T00:00:00.000Z'', ''2023-11-14T22:14:20.000Z'' ]"
       "map task_id [ to_task example_runtime (list_table ! 2),
                      to_task example_runtime (list_table ! 0) ] = [ ''task_c'', ''task_b'' ]"
    by (simp_all add: to_task_def row_date_def list_table_def example_row_def example_runtime_def)
  show ?thesis using ex_list_available ex_list_completed g e c n b by simp
qed

theorem getTasks_filtered_newest_first_counterexample:
  "snd (getTasks example_env example_runtime example_world (Some ''''))
     = Inr [to_task example_runtime example_row]
   \<and> status (to_task example_runtime example_row) = ''todo''
   \<and> snd (GET example_env example_runtime example_world (anonymous_request\<lparr>param_status := Some ''''\<rparr>))
     = \<lparr>http_status = 200, sent = TaskList [to_task example_runtime example_row] 1\<rparr>
   \<and> snd (getTasks example_env example_runtime example_world (Some [CHR 0x00]))
     = Inl (FailedToFetchTasks (Pg CharacterNotInRepertoire))
   \<and> snd (GET example_env example_runtime example_world
            (anonymous_request\<lparr>param_status := Some [CHR 0x00]\<rparr>))
     = \<lparr>http_status = 500, sent = Failure ''Failed to fetch tasks''\<rparr>"
proof -
  have h: "case or_null (Some '''') of None \<Rightarrow> True | Some s \<Rightarrow> \<not> has_nul s"
    by (simp add: or_null_def truthy_def)
  have s: "or_null (Some [CHR 0x00]) = Some [CHR 0x00]" "has_nul [CHR 0x00]"
    by (simp_all add: or_null_def truthy_def has_nul_def)
  show ?thesis
    using getTasks_available[OF ex_available h, of example_runtime]
      getTasks_refused[OF ex_available s, of example_runtime]
    by (simp add: GET_getTasks anonymous_request_def or_null_def truthy_def example_world_def
        to_task_def example_row_def)
qed

text \<open>
  C8. Whenever \<^verbatim>\<open>getPool\<close> does not throw: on a server that answers,
  \<^verbatim>\<open>getTaskStats\<close> returns the number of tasks, the number of tasks of each status
  and, as \<open>overdue\<close>, the number of tasks with a due date before \<open>now\<close> and a status
  other than \<open>completed\<close>; on an empty table it returns five zeros.
\<close>

theorem getTaskStats_counts:
  assumes "configured e w"
  shows "(reachable w \<longrightarrow>
            snd (getTaskStats e now w) =
              Inr \<lparr> total = length (team_tasks w),
                    todo = length (filter (\<lambda>r. col_status r = ''todo'') (team_tasks w)),
                    in_progress =
                      length (filter (\<lambda>r. col_status r = ''in_progress'') (team_tasks w)),
                    completed =
                      length (filter (\<lambda>r. col_status r = ''completed'') (team_tasks w)),
                    overdue =
                      length (filter (\<lambda>r. (case col_due_date r of None \<Rightarrow> False
                                              | Some d \<Rightarrow> d < now)
                                            \<and> col_status r \<noteq> ''completed'') (team_tasks w)) \<rparr>)
       \<and> (team_tasks w = [] \<longrightarrow> snd (getTaskStats e now w) = Inr no_stats)"
proof -
  have o: "is_overdue now =
             (\<lambda>r. (case col_due_date r of None \<Rightarrow> False | Some d \<Rightarrow> d < now)
                   \<and> col_status r \<noteq> ''completed'')"
    by (auto simp: is_overdue_def fun_eq_iff split: option.splits)
  show ?thesis
    using getTaskStats_configured[OF assms, of now] by (auto simp: o no_stats_def)
qed

theorem getTaskStats_counts_witness:
  "configured example_env (example_world\<lparr>team_tasks := stats_table\<rparr>)
   \<and> reachable (example_world\<lparr>team_tasks := stats_table\<rparr>)
   \<and> snd (getTaskStats example_env 1700000060000 (example_world\<lparr>team_tasks := stats_table\<rparr>))
       = Inr \<lparr> total = 5, todo = 2, in_progress = 1, completed = 2, overdue = 1 \<rparr>
   \<and> configured example_env empty_world
   \<and> snd (getTaskStats example_env 1700000060000 empty_world)
       = Inr \<lparr> total = 0, todo = 0, in_progress = 0, completed = 0, overdue = 0 \<rparr>"
proof -
  have r: "reachable (example_world\<lparr>team_tasks := stats_table\<rparr>)"
          "team_tasks empty_world = []"
    by (simp_all add: ex_defs)
  have t: "team_tasks (example_world\<lparr>team_tasks := stats_table\<rparr>) = stats_table" by simp
  show ?thesis
    using getTaskStats_counts[OF ex_configured(1), of stats_table 1700000060000]
          getTaskStats_counts[OF ex_configured(3), of 1700000060000] r ex_configured
    by (simp add: t no_stats_def) (simp add: stats_table_def example_row_def)
qed

text \<open>
  C9. On an available store, for every id that does not hold U+0000,
  \<^verbatim>\<open>deleteTask(id)\<close> returns, without raising, the boolean that says whether a row
  with that id was in the table, and removes exactly the rows with that id; afterwards
  \<^verbatim>\<open>getTaskById(id)\<close> returns \<^verbatim>\<open>null\<close> and a second \<^verbatim>\<open>deleteTask(id)\<close> returns
  \<^verbatim>\<open>false\<close>. An id that holds U+0000 is refused by the server: \<^verbatim>\<open>deleteTask\<close>
  and \<^verbatim>\<open>getTaskById\<close> throw and the table is as it was. The counterexample that
  follows is such an id, which no row of the table has.
\<close>

theorem deleteTask_reports_removal:
  assumes "available e w"
  shows "(\<not> has_nul i \<longrightarrow>
            snd (deleteTask e w i) = Inr (list_ex (\<lambda>r. col_id r = i) (team_tasks w))
          \<and> team_tasks (fst (deleteTask e w i)) = filter (\<lambda>r. col_id r \<noteq> i) (team_tasks w)
          \<and> snd (getTaskById e rt (fst (deleteTask e w i)) i) = Inr None
          \<and> snd (deleteTask e (fst (deleteTask e w i)) i) = Inr False)
       \<and> (has_nul i \<longrightarrow>
            snd (deleteTask e w i) = Inl FailedToDelete
          \<and> team_tasks (fst (deleteTask e w i)) = team_tasks w
          \<and> snd (getTaskById e rt w i) = Inl FailedToFetch)"
proof -
  have A: "snd (deleteTask e w i) = Inr (list_ex (\<lambda>r. col_id r = i) (team_tasks w))
          \<and> team_tasks (fst (deleteTask e w i)) = filter (\<lambda>r. col_id r \<noteq> i) (team_tasks w)
          \<and> snd (getTaskById e rt (fst (deleteTask e w i)) i) = Inr None
          \<and> snd (deleteTask e (fst (deleteTask e w i)) i) = Inr False"
    if n: "\<not> has_nul i"
  proof -
    from deleteTask_available[OF assms n] obtain w' where
      d: "deleteTask e w i
            = (w'\<lparr>team_tasks := filter (\<lambda>r. col_id r \<noteq> i) (team_tasks w)\<rparr>,
               Inr (list_ex (\<lambda>r. col_id r = i) (team_tasks w)))"
      and p: "reachable w'" "pool w' \<noteq> None"
      by blast
    let ?w1 = "w'\<lparr>team_tasks := filter (\<lambda>r. col_id r \<noteq> i) (team_tasks w)\<rparr>"
    have a1: "available e ?w1" using p by (simp add: available_def configured_def)
    have e1: "filter (\<lambda>r. col_id r = i) (team_tasks ?w1) = []" by (simp add: filter_empty_conv)
    have e2: "\<not> list_ex (\<lambda>r. col_id r = i) (team_tasks ?w1)" by (simp add: list_ex_iff)
    have "snd (getTaskById e rt ?w1 i) = Inr None"
      using getTaskById_available[OF a1 n, of rt] e1 by auto
    moreover have "snd (deleteTask e ?w1 i) = Inr False"
      using deleteTask_available[OF a1 n] e2 by auto
    ultimately show ?thesis using d by simp
  qed
  have B: "snd (deleteTask e w i) = Inl FailedToDelete
          \<and> team_tasks (fst (deleteTask e w i)) = team_tasks w
          \<and> snd (getTaskById e rt w i) = Inl FailedToFetch"
    if n: "has_nul i"
    using deleteTask_refused[OF assms n] getTaskById_refused[OF assms n, of rt] by simp
  from A B show ?thesis by blast
qed

theorem deleteTask_reports_removal_witness:
  "available example_env example_world
   \<and> \<not> has_nul ''task_sample_1''
   \<and> snd (deleteTask example_env example_world ''task_sample_1'') = Inr True
   \<and> team_tasks (fst (deleteTask example_env example_world ''task_sample_1'')) = []
   \<and> snd (getTaskById example_env example_runtime
            (fst (deleteTask example_env example_world ''task_sample_1'')) ''task_sample_1'')
       = Inr None
   \<and> snd (deleteTask example_env
            (fst (deleteTask example_env example_world ''task_sample_1'')) ''task_sample_1'')
       = Inr False
   \<and> has_nul (''a'' @ [CHR 0x00] @ ''b'')
   \<and> snd (deleteTask example_env example_world (''a'' @ [CHR 0x00] @ ''b'')) = Inl FailedToDelete
   \<and> team_tasks (fst (deleteTask example_env example_world (''a'' @ [CHR 0x00] @ ''b'')))
       = [example_row]"
proof -
  have n: "\<not> has_nul ''task_sample_1''" "has_nul (''a'' @ [CHR 0x00] @ ''b'')"
    by (simp_all add: has_nul_def)
  note t1 = deleteTask_reports_removal[OF ex_available, of "''task_sample_1''" example_runtime]
  note t2 = deleteTask_reports_removal[OF ex_available, of "''a'' @ [CHR 0x00] @ ''b''"
      example_runtime]
  from t1 n(1) have 1:
    "snd (deleteTask example_env example_world ''task_sample_1'')
       = Inr (list_ex (\<lambda>r. col_id r = ''task_sample_1'') (team_tasks example_world))"
    "team_tasks (fst (deleteTask example_env example_world ''task_sample_1''))
       = filter (\<lambda>r. col_id r \<noteq> ''task_sample_1'') (team_tasks example_world)"
    "snd (getTaskById example_env example_runtime
            (fst (deleteTask example_env example_world ''task_sample_1'')) ''task_sample_1'')
       = Inr None"
    "snd (deleteTask example_env
            (fst (deleteTask example_env example_world ''task_sample_1'')) ''task_sample_1'')
       = Inr False"
    by blast+
  from t2 n(2) have 2:
    "snd (deleteTask example_env example_world (''a'' @ [CHR 0x00] @ ''b'')) = Inl FailedToDelete"
    "team_tasks (fst (deleteTask example_env example_world (''a'' @ [CHR 0x00] @ ''b'')))
       = team_tasks example_world"
    by blast+
  show ?thesis
    using ex_available n 1 2 by (simp add: example_world_def example_row_def)
qed

theorem deleteTask_reports_removal_counterexample:
  "\<not> list_ex (\<lambda>r. col_id r = ''a'' @ [CHR 0x00] @ ''b'') (team_tasks example_world)
   \<and> deleteTask example_env example_world (''a'' @ [CHR 0x00] @ ''b'')
       = (example_world\<lparr>pool := Some ''postgres://db/board''\<rparr>, Inl FailedToDelete)
   \<and> snd (DELETE example_env example_world
            (extreme_request\<lparr>param_id := Some (''a'' @ [CHR 0x00] @ ''b'')\<rparr>))
       = \<lparr>http_status = 500, sent = Failure ''Failed to delete task''\<rparr>"
  by (simp add: DELETE_def verifyApiKey_def extreme_request_def deleteTask_def getPool_def
      pool_query_def has_nul_def ex_defs or_else_def or_null_def or_default_def truthy_def Let_def)

text \<open>
  C10. Whenever \<^verbatim>\<open>getPool\<close> does not throw and the query fails, \<^verbatim>\<open>getTaskStats\<close>
  raises nothing: it returns five zeros, the very result it gives on an empty table
  of a server that answers, and the table is as it was.
\<close>

theorem getTaskStats_swallows_query_failure:
  assumes "configured e w" and "\<not> reachable w"
  shows "snd (getTaskStats e now w) = Inr no_stats
       \<and> snd (getTaskStats e now w)
           = snd (getTaskStats e now (w\<lparr>reachable := True, team_tasks := []\<rparr>))
       \<and> team_tasks (fst (getTaskStats e now w)) = team_tasks w"
proof -
  have c: "configured e (w\<lparr>reachable := True, team_tasks := []\<rparr>)"
    using assms(1) by (simp add: configured_def)
  show ?thesis
    using getTaskStats_configured[OF assms(1), of now] getTaskStats_configured[OF c, of now]
      assms(2)
    by (simp add: no_stats_def)
qed

theorem getTaskStats_swallows_query_failure_witness:
  "configured example_env (example_world\<lparr>reachable := False\<rparr>)
   \<and> \<not> reachable (example_world\<lparr>reachable := False\<rparr>)
   \<and> snd (getTaskStats example_env 1700000060000 (example_world\<lparr>reachable := False\<rparr>))
       = Inr \<lparr> total = 0, todo = 0, in_progress = 0, completed = 0, overdue = 0 \<rparr>
   \<and> team_tasks (fst (getTaskStats example_env 1700000060000
                        (example_world\<lparr>reachable := False\<rparr>)))
       = [example_row]"
  using getTaskStats_swallows_query_failure[OF ex_configured(2), of False 1700000060000]
    ex_configured(2)[of False]
  by (simp add: no_stats_def) (simp add: example_world_def)

end
